theory Spec2Isabelle
  imports Complex_Main
begin

section \<open>The sampling script of bayesian-ngc1333\<close>

text \<open>
  A shallow embedding of \<^verbatim>\<open>innocent_script.py\<close>, the script that takes a pixel and
  a number of velocity components from the command line, builds the priors of the
  ammonia model, checks the spectrum, creates the output directory, runs MultiNest
  and, when plotting is switched on, reports Bayes factors and draws the figures.

  Python floats are modelled as reals (and, where the script tests them with
  \<^verbatim>\<open>np.isfinite\<close>, as reals extended by the two infinities and NaN); Python integers
  are \<^typ>\<open>int\<close>.
\<close>

subsection \<open>Priors\<close>

type_synonym interval = "real \<times> real"

text \<open>Python's \<^verbatim>\<open>list * n\<close>: \<open>n\<close> copies, none when \<open>n\<close> is zero or negative.\<close>

definition py_list_mul :: "'a list \<Rightarrow> int \<Rightarrow> 'a list" where
  "py_list_mul xs n = concat (replicate (nat n) xs)"

definition npars :: int where
  "npars = 6"

definition sig2fwhm :: real where
  "sig2fwhm = 2 * (2 * ln 2) powr 0.5"

definition min_sigma :: real where
  "min_sigma = 0.07 / sig2fwhm"

definition dv_min :: real where
  "dv_min = 0.2"

definition dv_max :: real where
  "dv_max = 3.0"

definition dxoff_prior :: interval where
  "dxoff_prior = (dv_min, dv_max)"

definition priors_xoff_transformed :: "int \<Rightarrow> interval list" where
  "priors_xoff_transformed npeaks =
     py_list_mul (rev [(2.7315, 25), (2.7315, 25), (12.0, 15.0),
                       (min_sigma, 1), dxoff_prior, (0.05, 2)]) (npeaks - 1)
     @ rev [(2.7315, 25), (2.7315, 25), (12.0, 15.0),
            (min_sigma, 1), (3, 10), (0.05, 1)]"

definition priors :: "int \<Rightarrow> interval list" where
  "priors npeaks = priors_xoff_transformed npeaks"

text \<open>
  The block of component \<open>k\<close> (counted from 0) of a prior list: its six intervals, in
  the order the list stores them.
\<close>

definition block :: "interval list \<Rightarrow> nat \<Rightarrow> interval list" where
  "block ps k = take 6 (drop (6 * k) ps)"

text \<open>
  The source writes a block as temperature, temperature, column density, line width,
  velocity offset, fraction, and reverses it: in the stored block the velocity-offset
  interval is at index 1 and the line-width interval at index 2.
\<close>

definition xoff_interval :: "interval list \<Rightarrow> interval" where
  "xoff_interval b = b ! 1"

definition sigma_interval :: "interval list \<Rightarrow> interval" where
  "sigma_interval b = b ! 2"

subsection \<open>Exceptions, floats, indexing\<close>

text \<open>
  The exceptions the script raises, catches or lets through. \<open>SystemExit\<close> carries the
  argument of \<^verbatim>\<open>sys.exit\<close>; \<open>OSError\<close> carries \<^verbatim>\<open>e.errno\<close>, which Python leaves
  \<^verbatim>\<open>None\<close> when the error was built without one. \<open>FileNotFoundError\<close> is the subclass
  of \<open>OSError\<close> that the script names on its own.
\<close>

datatype exn =
    IndexError
  | ValueError
  | TypeError
  | AttributeError
  | NameError
  | FileNotFoundError
  | OSError "int option"
  | SystemExit "int option"
  | OtherError string

fun isinstance_OSError :: "exn \<Rightarrow> bool" where
  "isinstance_OSError FileNotFoundError = True"
| "isinstance_OSError (OSError n) = True"
| "isinstance_OSError e = False"

fun errno :: "exn \<Rightarrow> int option" where
  "errno (OSError n) = n"
| "errno FileNotFoundError = Some 2"
| "errno e = None"

datatype pyfloat = Num real | PosInf | NegInf | NaN

fun isfinite :: "pyfloat \<Rightarrow> bool" where
  "isfinite (Num r) = True"
| "isfinite v = False"

text \<open>Python's \<^verbatim>\<open>xs[i]\<close>: a negative index counts from the end, out of range raises.\<close>

definition py_getitem :: "'a list \<Rightarrow> int \<Rightarrow> exn + 'a" where
  "py_getitem xs i =
     (if 0 \<le> i \<and> i < int (length xs) then Inr (xs ! nat i)
      else if i < 0 \<and> - int (length xs) \<le> i then Inr (xs ! nat (int (length xs) + i))
      else Inl IndexError)"

subsection \<open>Events and runs\<close>

text \<open>
  The paths the script formats, kept as their format arguments:
  \<open>ChainsDir x y\<close> is \<^verbatim>\<open>{output_dir}chains/ngc1333-gas_x{x}y{y}\<close>,
  \<open>ChainsBase x y n\<close> is that directory followed by \<^verbatim>\<open>/{n}-\<close>,
  \<open>FitFig x y n\<close> is \<^verbatim>\<open>{fig_dir}ngc1333-gas-fit-x{x}y{y}-x{n}.pdf\<close> and
  \<open>CornerFig x y n\<close> is \<^verbatim>\<open>{fig_dir}ngc1333-gas-corner-x{x}y{y}-x{n}.pdf\<close>.
\<close>

datatype path =
    ChainsDir int int
  | ChainsBase int int int
  | FitFig int int int
  | CornerFig int int int

text \<open>
  What a run of the script does to the outside world, in order: the messages it logs
  (with the values formatted into them) and the calls it makes to its collaborators.
\<close>

datatype event =
    Log_npeaks_default int
  | Log_xy_default int int
  | Call_get_spectrum int int
  | Call_get_nh3_model "interval list" int
  | Log_abort int int
  | Call_makedirs path
  | Call_pymultinest_run path int real
  | Call_analyzer_xy int int int
  | Log_lnZ int real
  | Call_getdata
  | Call_make_cube_shh
  | Call_get_zero_evidence
  | Call_lnZ_xy "int list" real
  | Log_bayes int int real
  | Call_plotter
  | Call_pars_xy
  | Call_plot_fit
  | Call_annotate int int real
  | Call_show
  | Call_savefig path
  | Call_corner_plot

text \<open>
  A run is the trace of events together with either the exception that ended it
  (\<open>Inl\<close>) or the value it produced (\<open>Inr\<close>). \<open>seq\<close> is Python's statement sequencing:
  an exception in the first part skips the second.
\<close>

type_synonym 'a run = "event list \<times> (exn + 'a)"

definition seq :: "'a run \<Rightarrow> ('a \<Rightarrow> 'b run) \<Rightarrow> 'b run" where
  "seq m f =
     (case m of
        (es, Inl e) \<Rightarrow> (es, Inl e)
      | (es, Inr a) \<Rightarrow> (case f a of (es', r) \<Rightarrow> (es @ es', r)))"

definition events :: "'a run \<Rightarrow> event list" where
  "events m = fst m"

definition outcome :: "'a run \<Rightarrow> exn + 'a" where
  "outcome m = snd m"

text \<open>
  The exit status of the interpreter: 0 when the script runs to its end or leaves through
  \<^verbatim>\<open>sys.exit()\<close> without an argument, the argument of \<^verbatim>\<open>sys.exit(n)\<close>, 1 for an
  exception nobody caught.
\<close>

fun exit_status :: "exn + unit \<Rightarrow> int" where
  "exit_status (Inr u) = 0"
| "exit_status (Inl (SystemExit None)) = 0"
| "exit_status (Inl (SystemExit (Some n))) = n"
| "exit_status (Inl e) = 1"

subsection \<open>The environment\<close>

text \<open>
  Everything the script gets from outside: the command line, the MPI runtime, the
  spectrum and the model built on it, the file system, the sampler, and the evidence
  and plotting helpers of pyspecnest and pyspeckit. A collaborator is given a result
  that may be an exception where the script handles its failure or depends on it
  (\<^verbatim>\<open>int\<close>, the rank query, \<^verbatim>\<open>os.makedirs\<close>, \<^verbatim>\<open>pymultinest.run\<close>,
  \<^verbatim>\<open>fits.getdata\<close>, \<^verbatim>\<open>plot_fit\<close>); the others are taken to return.

  \<open>int_builtin\<close> is Python's \<^verbatim>\<open>int\<close> on a string, \<open>None\<close> where it raises
  \<^verbatim>\<open>ValueError\<close>. \<open>comm_rank\<close> is \<open>None\<close> when \<^verbatim>\<open>mpi4py.MPI\<close> is not loaded, so
  that the attribute lookup in \<^verbatim>\<open>mpi_rank\<close> raises \<^verbatim>\<open>AttributeError\<close>.
  \<open>getdata_result\<close> and \<open>zero_evidence\<close> are grids indexed \<^verbatim>\<open>[y, x]\<close>.
\<close>

record env =
  argv :: "string list"
  int_builtin :: "string \<Rightarrow> int option"
  comm_rank :: "int option"
  ydata :: "pyfloat list"
  log_likelihood :: "real list \<Rightarrow> pyfloat"
  path_exists :: bool
  makedirs_result :: "exn option"
  sampler_result :: "exn option"
  global_evidence :: real
  getdata_result :: "exn + (int \<Rightarrow> int \<Rightarrow> real)"
  zero_evidence :: "int \<Rightarrow> int \<Rightarrow> real"
  lnZ_xy :: "int list \<Rightarrow> real \<Rightarrow> real list"
  plot_fit_result :: "exn option"
  plot_fit_retry_result :: "exn option"

definition n_live_points :: int where
  "n_live_points = 400"

definition sampling_efficiency :: real where
  "sampling_efficiency = 0.8"

subsection \<open>The coordinator predicate\<close>

definition mpi_rank :: "env \<Rightarrow> exn + int" where
  "mpi_rank env = (case comm_rank env of None \<Rightarrow> Inl AttributeError | Some r \<Rightarrow> Inr r)"

definition i_am_root :: "env \<Rightarrow> exn + bool" where
  "i_am_root env =
     (case mpi_rank env of
        Inr r \<Rightarrow> Inr (if r = 0 then True else False)
      | Inl e \<Rightarrow> (if e = AttributeError then Inr True else Inl e))"

subsection \<open>Command line\<close>

definition py_int :: "env \<Rightarrow> string \<Rightarrow> exn + int" where
  "py_int env s = (case int_builtin env s of None \<Rightarrow> Inl ValueError | Some n \<Rightarrow> Inr n)"

text \<open>\<^verbatim>\<open>int(sys.argv[i])\<close>: the index is taken first, then the conversion.\<close>

definition argv_int :: "env \<Rightarrow> int \<Rightarrow> exn + int" where
  "argv_int env i = (case py_getitem (argv env) i of Inl e \<Rightarrow> Inl e | Inr s \<Rightarrow> py_int env s)"

text \<open>The value of the global \<^verbatim>\<open>npeaks\<close> before the command line is read.\<close>

definition npeaks_global :: int where
  "npeaks_global = 2"

definition parse_npeaks :: "env \<Rightarrow> int run" where
  "parse_npeaks env =
     (case argv_int env 1 of
        Inr n \<Rightarrow> ([], Inr n)
      | Inl e \<Rightarrow>
          (if e = IndexError
           then ([Log_npeaks_default npeaks_global], Inr npeaks_global)
           else ([], Inl e)))"

text \<open>
  \<^verbatim>\<open>yx = int(sys.argv[2]), int(sys.argv[3])\<close> under one handler: the pair is built
  left to right, and an \<^verbatim>\<open>IndexError\<close> from either index gives the default pair
  \<^verbatim>\<open>(140, 112)\<close>, logged reversed.
\<close>

definition parse_yx :: "env \<Rightarrow> (int \<times> int) run" where
  "parse_yx env =
     (case (case argv_int env 2 of
              Inl e \<Rightarrow> Inl e
            | Inr y \<Rightarrow> (case argv_int env 3 of Inl e \<Rightarrow> Inl e | Inr x \<Rightarrow> Inr (y, x))) of
        Inr yx \<Rightarrow> ([], Inr yx)
      | Inl e \<Rightarrow>
          (if e = IndexError
           then ([Log_xy_default 112 140], Inr (140, 112))
           else ([], Inl e)))"

definition parse_plotting :: "env \<Rightarrow> bool run" where
  "parse_plotting env =
     (case argv_int env 4 of
        Inr n \<Rightarrow> ([], Inr (n \<noteq> 0))
      | Inl e \<Rightarrow> (if e = IndexError then ([], Inr False) else ([], Inl e)))"

text \<open>The four switches \<^verbatim>\<open>plot_fit, plot_corner, show_fit, show_corner\<close>.\<close>

definition plot_switches :: "bool \<Rightarrow> bool \<times> bool \<times> bool \<times> bool" where
  "plot_switches plotting =
     (if \<not> plotting then (False, False, False, False) else (True, True, True, True))"

subsection \<open>Model and sanity check\<close>

text \<open>
  Lines 104 to 142: the spectrum of the pixel is loaded and the ammonia model is built
  on the priors. Both calls are taken to return. Registering the fitter and mirroring
  its parameter names (lines 107 to 119) only change the spectrum object and leave no
  event.
\<close>

definition load_model :: "env \<Rightarrow> int \<Rightarrow> int \<times> int \<Rightarrow> unit run" where
  "load_model env npeaks yx =
     (case yx of (y, x) \<Rightarrow>
        ([Call_get_spectrum x y, Call_get_nh3_model (priors npeaks) npeaks], Inr ()))"

definition no_valid_chans :: "env \<Rightarrow> bool" where
  "no_valid_chans env = (\<not> list_ex isfinite (ydata env))"

definition sanity_check :: "env \<Rightarrow> int \<Rightarrow> bool" where
  "sanity_check env npeaks =
     isfinite (log_likelihood env (py_list_mul [15, 5, 15, 0.2, 7, 0.5] npeaks))"

text \<open>
  The message is formatted with \<^verbatim>\<open>*yx[::-1]\<close>, that is with \<open>x\<close> first;
  \<^verbatim>\<open>sys.exit()\<close> raises \<^verbatim>\<open>SystemExit\<close> with no argument.
\<close>

definition sanity_guard :: "env \<Rightarrow> int \<Rightarrow> int \<times> int \<Rightarrow> unit run" where
  "sanity_guard env npeaks yx =
     (if no_valid_chans env \<or> \<not> sanity_check env npeaks
      then ([Log_abort (snd yx) (fst yx)], Inl (SystemExit None))
      else ([], Inr ()))"

subsection \<open>Output directory and sampler\<close>

text \<open>\<^verbatim>\<open>suffix = 'x{1}y{0}'.format(*yx)\<close>.\<close>

definition chains_dir :: "int \<times> int \<Rightarrow> path" where
  "chains_dir yx = ChainsDir (snd yx) (fst yx)"

definition chains_base :: "int \<times> int \<Rightarrow> int \<Rightarrow> path" where
  "chains_base yx npeaks = ChainsBase (snd yx) (fst yx) npeaks"

text \<open>
  The handler around \<^verbatim>\<open>os.makedirs\<close>, on the result of the call: \<open>None\<close> when
  control goes on to the next statement, the exception when it leaves the handler.
\<close>

definition makedirs_handler :: "exn option \<Rightarrow> exn option" where
  "makedirs_handler r =
     (case r of
        None \<Rightarrow> None
      | Some e \<Rightarrow>
          (if isinstance_OSError e
           then (if errno e \<noteq> Some 17 then Some e else None)
           else Some e))"

definition make_chains_dir :: "env \<Rightarrow> int \<times> int \<Rightarrow> unit run" where
  "make_chains_dir env yx =
     (if \<not> path_exists env
      then ([Call_makedirs (chains_dir yx)],
            (case makedirs_handler (makedirs_result env) of
               None \<Rightarrow> Inr ()
             | Some e \<Rightarrow> Inl e))
      else ([], Inr ()))"

definition run_sampler :: "env \<Rightarrow> int \<Rightarrow> int \<times> int \<Rightarrow> unit run" where
  "run_sampler env npeaks yx =
     ([Call_pymultinest_run (chains_base yx npeaks) n_live_points sampling_efficiency],
      (case sampler_result env of None \<Rightarrow> Inr () | Some e \<Rightarrow> Inl e))"

subsection \<open>After the sampler\<close>

text \<open>
  The cached baseline grid, or the zero-component evidence of the whole cube when
  reading the cache raises \<^verbatim>\<open>FileNotFoundError\<close> or \<^verbatim>\<open>OSError\<close>.
\<close>

definition baseline :: "env \<Rightarrow> (int \<Rightarrow> int \<Rightarrow> real) run" where
  "baseline env =
     (case getdata_result env of
        Inr g \<Rightarrow> ([Call_getdata], Inr g)
      | Inl e \<Rightarrow>
          (if e = FileNotFoundError \<or> isinstance_OSError e
           then ([Call_getdata, Call_make_cube_shh, Call_get_zero_evidence],
                 Inr (zero_evidence env))
           else ([Call_getdata], Inl e)))"

text \<open>\<^verbatim>\<open>Zs[i] - Zs[j]\<close>, the left index first.\<close>

definition Zs_diff :: "real list \<Rightarrow> int \<Rightarrow> int \<Rightarrow> exn + real" where
  "Zs_diff Zs i j =
     (case py_getitem Zs i of
        Inl e \<Rightarrow> Inl e
      | Inr a \<Rightarrow> (case py_getitem Zs j of Inl e \<Rightarrow> Inl e | Inr b \<Rightarrow> Inr (a - b)))"

text \<open>
  One Bayes factor handed to \<open>out\<close> (the log message, or the annotation of the plot):
  the difference is computed first, and nothing is reported when it raises.
\<close>

definition report_bayes :: "(int \<Rightarrow> int \<Rightarrow> real \<Rightarrow> event) \<Rightarrow> real list \<Rightarrow> int \<Rightarrow> int \<Rightarrow> unit run" where
  "report_bayes out Zs i j =
     (case Zs_diff Zs i j of Inl e \<Rightarrow> ([], Inl e) | Inr d \<Rightarrow> ([out i j d], Inr ()))"

definition report_bayes_factors :: "(int \<Rightarrow> int \<Rightarrow> real \<Rightarrow> event) \<Rightarrow> real list \<Rightarrow> int \<Rightarrow> unit run" where
  "report_bayes_factors out Zs npeaks =
     seq (report_bayes out Zs npeaks (npeaks - 1))
       (\<lambda>u. if npeaks > 1 then report_bayes out Zs npeaks 0 else ([], Inr ()))"

text \<open>
  Lines 179 to 201. The result is the binding of \<^verbatim>\<open>Zs\<close> (and of the analyzer
  \<^verbatim>\<open>a\<close>) that the later blocks read: \<open>None\<close> when the block was skipped.
\<close>

definition evidence_block :: "env \<Rightarrow> int \<Rightarrow> int \<times> int \<Rightarrow> bool \<Rightarrow> real list option run" where
  "evidence_block env npeaks yx plot_fit =
     seq ([], i_am_root env) (\<lambda>root.
       if root \<and> plot_fit
       then (case yx of (y, x) \<Rightarrow>
         seq ([Call_analyzer_xy x y npeaks, Log_lnZ npeaks (global_evidence env)], Inr ()) (\<lambda>u.
         seq (baseline env) (\<lambda>lnZ0.
         seq ([Call_lnZ_xy [0..npeaks] (lnZ0 y x)], Inr (lnZ_xy env [0..npeaks] (lnZ0 y x))) (\<lambda>Zs.
         seq (report_bayes_factors Log_bayes Zs npeaks) (\<lambda>u. ([], Inr (Some Zs)))))))
       else ([], Inr None))"

text \<open>
  \<^verbatim>\<open>plot_fit\<close> with the parameter records, and once more with the bare parameters
  when the first call raises \<^verbatim>\<open>TypeError\<close>.
\<close>

definition plot_fit_call :: "env \<Rightarrow> unit run" where
  "plot_fit_call env =
     (case plot_fit_result env of
        None \<Rightarrow> ([Call_plot_fit], Inr ())
      | Some e \<Rightarrow>
          (if e = TypeError
           then ([Call_plot_fit, Call_plot_fit],
                 (case plot_fit_retry_result env of None \<Rightarrow> Inr () | Some e' \<Rightarrow> Inl e'))
           else ([Call_plot_fit], Inl e)))"

definition fit_block :: "env \<Rightarrow> int \<Rightarrow> int \<times> int \<Rightarrow> bool \<Rightarrow> bool \<Rightarrow> real list option \<Rightarrow> unit run" where
  "fit_block env npeaks yx plot_fit show_fit zs =
     (if plot_fit
      then seq ([], i_am_root env) (\<lambda>root.
        if root
        then
          seq ([Call_plotter, Call_pars_xy], Inr ()) (\<lambda>u.
          seq (plot_fit_call env) (\<lambda>u.
          seq (case zs of None \<Rightarrow> ([], Inl NameError) | Some Zs \<Rightarrow> ([], Inr Zs)) (\<lambda>Zs.
          seq (report_bayes_factors Call_annotate Zs npeaks) (\<lambda>u.
            ((if show_fit then [Call_show] else [])
               @ [Call_savefig (FitFig (snd yx) (fst yx) npeaks)], Inr ())))))
        else ([], Inr ()))
      else ([], Inr ()))"

definition corner_block :: "env \<Rightarrow> int \<Rightarrow> int \<times> int \<Rightarrow> bool \<Rightarrow> bool \<Rightarrow> real list option \<Rightarrow> unit run" where
  "corner_block env npeaks yx plot_corner show_corner zs =
     (if plot_corner
      then seq ([], i_am_root env) (\<lambda>root.
        if root
        then
          seq ([Call_pars_xy], Inr ()) (\<lambda>u.
          seq (case zs of None \<Rightarrow> ([], Inl NameError) | Some Zs \<Rightarrow> ([], Inr Zs)) (\<lambda>Zs.
            ([Call_corner_plot, Call_savefig (CornerFig (snd yx) (fst yx) npeaks)]
               @ (if show_corner then [Call_show] else []), Inr ())))
        else ([], Inr ()))
      else ([], Inr ()))"

definition post_sampling :: "env \<Rightarrow> int \<Rightarrow> int \<times> int \<Rightarrow> bool \<Rightarrow> unit run" where
  "post_sampling env npeaks yx plotting =
     (case plot_switches plotting of (plot_fit, plot_corner, show_fit, show_corner) \<Rightarrow>
        seq (evidence_block env npeaks yx plot_fit) (\<lambda>zs.
        seq (fit_block env npeaks yx plot_fit show_fit zs) (\<lambda>u.
        corner_block env npeaks yx plot_corner show_corner zs)))"

subsection \<open>The script\<close>

text \<open>The statements from the sanity check on, for the arguments already parsed.\<close>

definition from_guard :: "env \<Rightarrow> int \<Rightarrow> int \<times> int \<Rightarrow> bool \<Rightarrow> unit run" where
  "from_guard env npeaks yx plotting =
     seq (sanity_guard env npeaks yx) (\<lambda>u.
     seq (make_chains_dir env yx) (\<lambda>u.
     seq (run_sampler env npeaks yx) (\<lambda>u.
     post_sampling env npeaks yx plotting)))"

definition script :: "env \<Rightarrow> unit run" where
  "script env =
     seq (parse_npeaks env) (\<lambda>npeaks.
     seq (parse_yx env) (\<lambda>yx.
     seq (parse_plotting env) (\<lambda>plotting.
     seq (load_model env npeaks yx) (\<lambda>u.
     from_guard env npeaks yx plotting))))"

subsection \<open>Concurrent directory creation\<close>

text \<open>
  Two processes run lines 160 to 166 on the same path, interleaved in any order. The
  file system is the only thing they share: whether the directory is there, and (for
  counting) how often it has been created. \<^verbatim>\<open>os.makedirs\<close> is atomic: on a directory
  that is there it raises \<^verbatim>\<open>FileExistsError\<close>, an \<^verbatim>\<open>OSError\<close> with errno 17,
  otherwise it creates the directory. No other failure of the file system is part of
  this model.
\<close>

record filesys =
  dir_present :: bool
  creations :: nat

definition os_makedirs :: "filesys \<Rightarrow> exn option \<times> filesys" where
  "os_makedirs fs =
     (if dir_present fs then (Some (OSError (Some 17)), fs)
      else (None, fs\<lparr>dir_present := True, creations := creations fs + 1\<rparr>))"

datatype pc = At_exists | At_makedirs | Passed | Failed exn

fun proc_step :: "pc \<Rightarrow> filesys \<Rightarrow> pc \<times> filesys" where
  "proc_step At_exists fs = (if \<not> dir_present fs then (At_makedirs, fs) else (Passed, fs))"
| "proc_step At_makedirs fs =
     (case os_makedirs fs of (r, fs') \<Rightarrow>
        (case makedirs_handler r of None \<Rightarrow> (Passed, fs') | Some e \<Rightarrow> (Failed e, fs')))"
| "proc_step p fs = (p, fs)"

fun terminal :: "pc \<Rightarrow> bool" where
  "terminal At_exists = False"
| "terminal At_makedirs = False"
| "terminal p = True"

text \<open>A schedule says which process moves next: \<open>False\<close> the first, \<open>True\<close> the second.\<close>

fun sched_step :: "bool \<Rightarrow> pc \<times> pc \<times> filesys \<Rightarrow> pc \<times> pc \<times> filesys" where
  "sched_step False (p, q, fs) = (case proc_step p fs of (p', fs') \<Rightarrow> (p', q, fs'))"
| "sched_step True (p, q, fs) = (case proc_step q fs of (q', fs') \<Rightarrow> (p, q', fs'))"

fun run_sched :: "bool list \<Rightarrow> pc \<times> pc \<times> filesys \<Rightarrow> pc \<times> pc \<times> filesys" where
  "run_sched [] c = c"
| "run_sched (b # bs) c = run_sched bs (sched_step b c)"

definition start :: "pc \<times> pc \<times> filesys" where
  "start = (At_exists, At_exists, \<lparr>dir_present = False, creations = 0\<rparr>)"

text \<open>
  What holds of the two processes at every moment: a process that went past the
  creation finds the directory there, none has failed, and the directory has been
  created once if it is there and never if it is not. \<open>steps_left\<close> bounds the moves a
  process still has to make.
\<close>

fun pc_ok :: "pc \<Rightarrow> filesys \<Rightarrow> bool" where
  "pc_ok At_exists fs = True"
| "pc_ok At_makedirs fs = True"
| "pc_ok Passed fs = dir_present fs"
| "pc_ok (Failed e) fs = False"

fun race_inv :: "pc \<times> pc \<times> filesys \<Rightarrow> bool" where
  "race_inv (p, q, fs) =
     (pc_ok p fs \<and> pc_ok q fs \<and> creations fs = (if dir_present fs then 1 else 0))"

fun steps_left :: "pc \<Rightarrow> nat" where
  "steps_left At_exists = 2"
| "steps_left At_makedirs = 1"
| "steps_left p = 0"

subsection \<open>Kinds of events\<close>

text \<open>
  The events of lines 179 to 248: the evidence report with its baseline, and the plots.
\<close>

fun after_sampler :: "event \<Rightarrow> bool" where
  "after_sampler (Call_analyzer_xy x y n) = True"
| "after_sampler (Log_lnZ n z) = True"
| "after_sampler Call_getdata = True"
| "after_sampler Call_make_cube_shh = True"
| "after_sampler Call_get_zero_evidence = True"
| "after_sampler (Call_lnZ_xy ns z) = True"
| "after_sampler (Log_bayes i j d) = True"
| "after_sampler Call_plotter = True"
| "after_sampler Call_pars_xy = True"
| "after_sampler Call_plot_fit = True"
| "after_sampler (Call_annotate i j d) = True"
| "after_sampler Call_show = True"
| "after_sampler (Call_savefig p) = True"
| "after_sampler Call_corner_plot = True"
| "after_sampler ev = False"

text \<open>The calls that create a directory or write files.\<close>

fun writes_output :: "event \<Rightarrow> bool" where
  "writes_output (Call_makedirs p) = True"
| "writes_output (Call_pymultinest_run p n e) = True"
| "writes_output (Call_savefig p) = True"
| "writes_output ev = False"

subsection \<open>Example environments\<close>

definition int_table :: "string \<Rightarrow> int option" where
  "int_table = map_of [(''0'', 0), (''1'', 1), (''2'', 2), (''112'', 112), (''140'', 140)]"

definition lnZ_table :: "int list \<Rightarrow> real \<Rightarrow> real list" where
  "lnZ_table ns lnZ0 = map (\<lambda>n. if n = 0 then lnZ0 else if n = 1 then - 80 else - 85) ns"

text \<open>
  A run without arguments and without MPI, on a spectrum with one finite channel, in a
  tree where the chains directory is not there yet; the evidences are those of the
  example \<open>Z0 = -100\<close>, \<open>Z1 = -80\<close>, \<open>Z2 = -85\<close>.
\<close>

definition env_default :: env where
  "env_default =
     \<lparr>argv = [''innocent_script.py''], int_builtin = int_table, comm_rank = None,
      ydata = [NaN, Num 1], log_likelihood = (\<lambda>p. Num (- 1)), path_exists = False,
      makedirs_result = None, sampler_result = None, global_evidence = - 85,
      getdata_result = Inr (\<lambda>y x. - 100), zero_evidence = (\<lambda>y x. - 100),
      lnZ_xy = lnZ_table, plot_fit_result = None, plot_fit_retry_result = None\<rparr>"

section \<open>Properties\<close>

subsection \<open>Priors\<close>

lemma block_concat_replicate:
  "length b = 6 \<Longrightarrow> k < n \<Longrightarrow> block (concat (replicate n b) @ ys) k = b"
proof (induction n arbitrary: k)
  case 0
  then show ?case by simp
next
  case (Suc n)
  show ?case
  proof (cases k)
    case 0
    with Suc.prems show ?thesis by (simp add: block_def)
  next
    case (Suc j)
    with Suc.prems have "j < n" by simp
    from Suc.IH [OF Suc.prems(1) this] show ?thesis
      using Suc Suc.prems(1) by (simp add: block_def)
  qed
qed

lemma block_after_replicate:
  "length b = 6 \<Longrightarrow> length ys = 6 \<Longrightarrow> block (concat (replicate n b) @ ys) n = ys"
  by (induction n) (simp_all add: block_def)

lemma sig2fwhm_sqrt: "sig2fwhm = 2 * sqrt (2 * ln 2)"
proof -
  have "(0::real) \<le> 2 * ln 2" by simp
  then have "(2 * ln (2::real)) powr (1 / 2) = sqrt (2 * ln 2)"
    by (rule powr_half_sqrt)
  then show ?thesis by (simp add: sig2fwhm_def)
qed

lemma sig2fwhm_pos: "0 < sig2fwhm"
  by (simp add: sig2fwhm_sqrt)

lemma min_sigma_pos: "0 < min_sigma"
  using sig2fwhm_pos by (simp add: min_sigma_def)

lemma length_priors: "length (priors_xoff_transformed n) = 6 * nat (n - 1) + 6"
  by (simp add: priors_xoff_transformed_def py_list_mul_def length_concat sum_list_replicate)

lemma block_separation:
  assumes "int k < n - 1"
  shows "block (priors_xoff_transformed n) k =
     [(0.05, 2), (0.2, 3), (min_sigma, 1), (12, 15), (2.7315, 25), (2.7315, 25)]"
proof -
  from assms have "k < nat (n - 1)" by simp
  then show ?thesis
    by (simp add: priors_xoff_transformed_def py_list_mul_def dxoff_prior_def
        dv_min_def dv_max_def block_concat_replicate)
qed

lemma block_anchored:
  "block (priors_xoff_transformed n) (nat (n - 1)) =
     [(0.05, 1), (3, 10), (min_sigma, 1), (12, 15), (2.7315, 25), (2.7315, 25)]"
  by (simp add: priors_xoff_transformed_def py_list_mul_def block_after_replicate)

lemma half_less_ln2: "1 / 2 < ln (2::real)"
proof -
  have "exp (1 / 2 :: real) ^ 2 = exp 1"
    by (simp add: exp_double [symmetric])
  also have "\<dots> \<le> 3" by (rule exp_le)
  also have "\<dots> < (2::real) ^ 2" by simp
  finally have "exp (1 / 2 :: real) < 2"
    by (rule power2_less_imp_less) simp
  then have "exp (1 / 2 :: real) < exp (ln 2)" by simp
  then show ?thesis by (simp only: exp_less_cancel_iff)
qed

lemma min_sigma_le_one: "min_sigma \<le> 1"
proof -
  have "1 \<le> 2 * ln (2::real)" using half_less_ln2 by simp
  then have "1 \<le> sqrt (2 * ln (2::real))" by simp
  then have "7 \<le> 200 * sqrt (2 * ln (2::real))" by linarith
  then have "0.07 \<le> 2 * sqrt (2 * ln (2::real))" by simp
  moreover have "0 < 2 * sqrt (2 * ln (2::real))" by simp
  ultimately have "0.07 / (2 * sqrt (2 * ln (2::real))) \<le> 1"
    by (simp only: divide_le_eq_1_pos)
  then show ?thesis by (simp only: min_sigma_def sig2fwhm_sqrt)
qed

lemma set_concat_replicate: "set (concat (replicate n b)) \<subseteq> set b"
  by (induction n) simp_all

lemma priors_bounds_ordered:
  assumes "iv \<in> set (priors_xoff_transformed N)"
  shows "fst iv \<le> snd iv"
proof -
  let ?b = "[(0.05, 2), (0.2, 3.0), (min_sigma, 1), (12.0, 15.0), (2.7315, 25), (2.7315, 25)] :: interval list"
  let ?a = "[(0.05, 1), (3, 10), (min_sigma, 1), (12.0, 15.0), (2.7315, 25), (2.7315, 25)] :: interval list"
  have "priors_xoff_transformed N = concat (replicate (nat (N - 1)) ?b) @ ?a"
    by (simp add: priors_xoff_transformed_def py_list_mul_def dxoff_prior_def dv_min_def dv_max_def)
  with assms have "iv \<in> set (concat (replicate (nat (N - 1)) ?b)) \<union> set ?a"
    by (simp only: set_append)
  with set_concat_replicate [of "nat (N - 1)" ?b] have "iv \<in> set ?b \<union> set ?a"
    by blast
  then show ?thesis
    using min_sigma_le_one by auto
qed

subsection \<open>Layout of the prior list\<close>

text \<open>
  Claim C1. For every component count \<open>N \<ge> 1\<close> the prior list has \<open>6 * N\<close> intervals,
  each with its lower bound below its upper bound. The first \<open>N - 1\<close> blocks are
  separation blocks, whose velocity-offset interval is the strictly positive
  \<open>[0.2, 3.0]\<close>; the last block is the anchored one, whose velocity-offset interval is
  \<open>[3, 10]\<close>. For \<open>N = 1\<close> the list is the anchored block alone.
\<close>

theorem C1_priors_layout:
  assumes "1 \<le> N"
  shows "length (priors N) = nat (6 * N)
    \<and> (\<forall>k. int k < N - 1 \<longrightarrow>
          block (priors N) k =
            [(0.05, 2), (0.2, 3.0), (min_sigma, 1), (12.0, 15.0), (2.7315, 25), (2.7315, 25)]
          \<and> xoff_interval (block (priors N) k) = (0.2, 3.0)
          \<and> 0 < fst (xoff_interval (block (priors N) k)))
    \<and> block (priors N) (nat (N - 1)) =
          [(0.05, 1), (3, 10), (min_sigma, 1), (12.0, 15.0), (2.7315, 25), (2.7315, 25)]
    \<and> xoff_interval (block (priors N) (nat (N - 1))) = (3, 10)
    \<and> (N = 1 \<longrightarrow> priors N =
          [(0.05, 1), (3, 10), (min_sigma, 1), (12.0, 15.0), (2.7315, 25), (2.7315, 25)])
    \<and> (\<forall>iv \<in> set (priors N). fst iv \<le> snd iv)"
proof (intro conjI allI impI ballI)
  show "length (priors N) = nat (6 * N)"
    using assms by (simp add: priors_def length_priors nat_mult_distrib)
next
  fix k assume k: "int k < N - 1"
  show b: "block (priors N) k =
            [(0.05, 2), (0.2, 3.0), (min_sigma, 1), (12.0, 15.0), (2.7315, 25), (2.7315, 25)]"
    using block_separation [OF k] by (simp add: priors_def)
  show "xoff_interval (block (priors N) k) = (0.2, 3.0)"
    by (simp add: b xoff_interval_def)
  then show "0 < fst (xoff_interval (block (priors N) k))" by simp
next
  show a: "block (priors N) (nat (N - 1)) =
          [(0.05, 1), (3, 10), (min_sigma, 1), (12.0, 15.0), (2.7315, 25), (2.7315, 25)]"
    using block_anchored [of N] by (simp add: priors_def)
  show "xoff_interval (block (priors N) (nat (N - 1))) = (3, 10)"
    by (simp add: a xoff_interval_def)
next
  assume "N = 1"
  then show "priors N =
          [(0.05, 1), (3, 10), (min_sigma, 1), (12.0, 15.0), (2.7315, 25), (2.7315, 25)]"
    by (simp add: priors_def priors_xoff_transformed_def py_list_mul_def)
next
  fix iv assume "iv \<in> set (priors N)"
  then show "fst iv \<le> snd iv"
    by (simp add: priors_def priors_bounds_ordered)
qed

theorem C1_priors_layout_witness:
  "(1::int) \<le> 3 \<and> length (priors 3) = 18
   \<and> xoff_interval (block (priors 3) 0) = (0.2, 3.0)
   \<and> xoff_interval (block (priors 3) 1) = (0.2, 3.0)
   \<and> xoff_interval (block (priors 3) 2) = (3, 10)"
proof -
  have h: "(1::int) \<le> 3" by simp
  note t = C1_priors_layout [OF h]
  from t have l: "length (priors 3) = nat (6 * 3)" by (rule conjunct1)
  from t have q: "\<forall>k. int k < 3 - 1 \<longrightarrow>
          block (priors 3) k =
            [(0.05, 2), (0.2, 3.0), (min_sigma, 1), (12.0, 15.0), (2.7315, 25), (2.7315, 25)]
          \<and> xoff_interval (block (priors 3) k) = (0.2, 3.0)
          \<and> 0 < fst (xoff_interval (block (priors 3) k))"
    by (rule conjunct1 [OF conjunct2])
  from t have a: "xoff_interval (block (priors 3) (nat (3 - 1))) = (3, 10)"
    by (rule conjunct1 [OF conjunct2 [OF conjunct2 [OF conjunct2]]])
  have k0: "int 0 < 3 - 1" and k1: "int 1 < 3 - 1" by simp_all
  from q k0 have x0: "xoff_interval (block (priors 3) 0) = (0.2, 3.0)" by blast
  from q k1 have x1: "xoff_interval (block (priors 3) 1) = (0.2, 3.0)" by blast
  have n: "nat (3 - 1) = 2" by simp
  show ?thesis using l x0 x1 a by (simp add: n)
qed

text \<open>
  Claim C8. In the block of every component the line-width interval starts at
  \<open>min_sigma\<close>, which is 0.07 divided by \<open>2 * sqrt (2 * ln 2)\<close> and strictly positive.
  (Over the reals: the rounding of the double-precision computation is not modelled.)
\<close>

theorem C8_line_width_lower_bound:
  assumes "1 \<le> N" and "int k < N"
  shows "sigma_interval (block (priors N) k) = (min_sigma, 1)
    \<and> fst (sigma_interval (block (priors N) k)) = 0.07 / (2 * sqrt (2 * ln 2))
    \<and> 0 < fst (sigma_interval (block (priors N) k))"
proof -
  have s: "sigma_interval (block (priors N) k) = (min_sigma, 1)"
  proof (cases "int k < N - 1")
    case True
    from block_separation [OF this] show ?thesis
      by (simp add: priors_def sigma_interval_def)
  next
    case False
    with assms have "k = nat (N - 1)" by simp
    with block_anchored [of N] show ?thesis
      by (simp add: priors_def sigma_interval_def)
  qed
  moreover have "min_sigma = 0.07 / (2 * sqrt (2 * ln 2))"
    by (simp only: min_sigma_def sig2fwhm_sqrt)
  ultimately show ?thesis using min_sigma_pos by simp
qed

theorem C8_line_width_lower_bound_witness:
  "(1::int) \<le> 2 \<and> int 0 < 2 \<and> int 1 < 2
   \<and> sigma_interval (block (priors 2) 0) = (min_sigma, 1)
   \<and> sigma_interval (block (priors 2) 1) = (min_sigma, 1)"
proof -
  have h: "(1::int) \<le> 2" and k0: "int 0 < 2" and k1: "int 1 < 2" by simp_all
  from C8_line_width_lower_bound [OF h k0]
  have a: "sigma_interval (block (priors 2) 0) = (min_sigma, 1)" by (rule conjunct1)
  from C8_line_width_lower_bound [OF h k1]
  have b: "sigma_interval (block (priors 2) 1) = (min_sigma, 1)" by (rule conjunct1)
  show ?thesis using a b by simp
qed

subsection \<open>Runs and the command line\<close>

lemma seq_Inl: "seq (es, Inl e) f = (es, Inl e)"
  by (simp add: seq_def)

lemma seq_Inr: "seq (es, Inr a) f = (es @ fst (f a), snd (f a))"
  by (simp add: seq_def split: prod.split)

lemma py_getitem_short: "0 \<le> i \<Longrightarrow> int (length xs) \<le> i \<Longrightarrow> py_getitem xs i = Inl IndexError"
  by (simp add: py_getitem_def)

lemma argv_int_missing: "0 \<le> i \<Longrightarrow> int (length (argv env)) \<le> i \<Longrightarrow> argv_int env i = Inl IndexError"
  by (simp add: argv_int_def py_getitem_short)

lemma parse_npeaks_missing:
  "length (argv env) \<le> 1 \<Longrightarrow> parse_npeaks env = ([Log_npeaks_default 2], Inr 2)"
  by (simp add: parse_npeaks_def argv_int_missing npeaks_global_def)

lemma parse_yx_missing_y:
  "length (argv env) \<le> 2 \<Longrightarrow> parse_yx env = ([Log_xy_default 112 140], Inr (140, 112))"
  by (simp add: parse_yx_def argv_int_missing)


lemma parse_plotting_missing:
  "length (argv env) \<le> 4 \<Longrightarrow> parse_plotting env = ([], Inr False)"
  by (simp add: parse_plotting_def argv_int_missing)



subsection \<open>The sanity check\<close>

lemma parse_npeaks_events: "\<not> writes_output ev \<and> \<not> after_sampler ev" if "ev \<in> set (events (parse_npeaks env))"
  using that by (auto simp: parse_npeaks_def events_def split: sum.splits if_splits)

lemma parse_yx_events: "\<not> writes_output ev \<and> \<not> after_sampler ev" if "ev \<in> set (events (parse_yx env))"
  using that by (auto simp: parse_yx_def events_def split: sum.splits if_splits)

lemma parse_plotting_events: "events (parse_plotting env) = []"
  by (auto simp: parse_plotting_def events_def split: sum.splits if_splits)

lemma load_model_events: "\<not> writes_output ev \<and> \<not> after_sampler ev" if "ev \<in> set (events (load_model env n yx))"
  using that by (auto simp: load_model_def events_def split: prod.splits)

lemma events_seq_cases:
  assumes "ev \<in> set (events (seq m f))"
  shows "ev \<in> set (events m) \<or> (\<exists>a. outcome m = Inr a \<and> ev \<in> set (events (f a)))"
  using assms
  by (cases m; cases "snd m") (auto simp: seq_def events_def outcome_def split: prod.splits)

lemma outcome_seq_Inl: "outcome m = Inl e \<Longrightarrow> seq m f = (events m, Inl e)"
  by (cases m) (simp add: seq_def events_def outcome_def)

lemma outcome_seq_Inr: "outcome m = Inr a \<Longrightarrow> seq m f = (events m @ events (f a), outcome (f a))"
  by (cases m) (simp add: seq_def events_def outcome_def split: prod.split)

lemma sanity_guard_abort:
  "no_valid_chans env \<or> \<not> sanity_check env n \<Longrightarrow>
     sanity_guard env n yx = ([Log_abort (snd yx) (fst yx)], Inl (SystemExit None))"
  by (simp add: sanity_guard_def)

lemma sanity_guard_pass:
  "\<not> no_valid_chans env \<Longrightarrow> sanity_check env n \<Longrightarrow> sanity_guard env n yx = ([], Inr ())"
  by (simp add: sanity_guard_def)

lemma from_guard_abort:
  "no_valid_chans env \<or> \<not> sanity_check env n \<Longrightarrow>
     from_guard env n yx plotting = ([Log_abort (snd yx) (fst yx)], Inl (SystemExit None))"
  by (simp add: from_guard_def sanity_guard_abort seq_Inl)

lemma from_guard_pass:
  "\<not> no_valid_chans env \<Longrightarrow> sanity_check env n \<Longrightarrow>
     from_guard env n yx plotting =
       seq (make_chains_dir env yx) (\<lambda>u. seq (run_sampler env n yx) (\<lambda>u. post_sampling env n yx plotting))"
  by (simp add: from_guard_def sanity_guard_pass seq_Inr)

text \<open>The script up to the sanity check, when the command line parses.\<close>

lemma run_eq: "m = (events m, outcome m)"
  by (simp add: events_def outcome_def)

lemma script_parsed:
  assumes "outcome (parse_npeaks env) = Inr n" and "outcome (parse_yx env) = Inr yx"
    and "outcome (parse_plotting env) = Inr plotting"
  shows "script env =
     seq (events (parse_npeaks env) @ events (parse_yx env)
            @ [Call_get_spectrum (snd yx) (fst yx), Call_get_nh3_model (priors n) n], Inr ())
       (\<lambda>u. from_guard env n yx plotting)"
proof -
  obtain e1 e2 where p1: "parse_npeaks env = (e1, Inr n)" and p2: "parse_yx env = (e2, Inr yx)"
    using assms(1,2) run_eq [of "parse_npeaks env"] run_eq [of "parse_yx env"] by simp
  have p3: "parse_plotting env = ([], Inr plotting)"
    using assms(3) run_eq [of "parse_plotting env"] by (simp add: parse_plotting_events)
  show ?thesis
    by (cases yx) (simp add: script_def p1 p2 p3 seq_Inr load_model_def events_def)
qed

lemma events_pair: "events (es, r) = es"
  by (simp add: events_def)

lemma outcome_pair: "outcome (es, r) = r"
  by (simp add: outcome_def)

lemma events_seq:
  "events (seq m f) = events m @ (case outcome m of Inl e \<Rightarrow> [] | Inr a \<Rightarrow> events (f a))"
  by (cases m; cases "snd m") (simp_all add: seq_def events_def outcome_def split: prod.split)

lemma outcome_seq:
  "outcome (seq m f) = (case outcome m of Inl e \<Rightarrow> Inl e | Inr a \<Rightarrow> outcome (f a))"
  by (cases m; cases "snd m") (simp_all add: seq_def events_def outcome_def split: prod.split)

lemma make_chains_dir_events:
  "events (make_chains_dir env yx) = (if path_exists env then [] else [Call_makedirs (chains_dir yx)])"
  by (simp add: make_chains_dir_def events_def)

lemma run_sampler_events:
  "events (run_sampler env n yx) =
     [Call_pymultinest_run (chains_base yx n) n_live_points sampling_efficiency]"
  by (simp add: run_sampler_def events_def)

lemma script_abort:
  assumes "outcome (parse_npeaks env) = Inr n" and "outcome (parse_yx env) = Inr yx"
    and "outcome (parse_plotting env) = Inr plotting"
    and "no_valid_chans env \<or> \<not> sanity_check env n"
  shows "script env =
     (events (parse_npeaks env) @ events (parse_yx env)
        @ [Call_get_spectrum (snd yx) (fst yx), Call_get_nh3_model (priors n) n,
           Log_abort (snd yx) (fst yx)],
      Inl (SystemExit None))"
  by (simp add: script_parsed [OF assms(1-3)] from_guard_abort [OF assms(4)] seq_Inr)

lemma script_abort_quiet:
  assumes "outcome (parse_npeaks env) = Inr n" and "outcome (parse_yx env) = Inr yx"
    and "outcome (parse_plotting env) = Inr plotting"
    and "no_valid_chans env \<or> \<not> sanity_check env n"
    and "ev \<in> set (events (script env))"
  shows "\<not> writes_output ev"
proof -
  from assms(5) have "ev \<in> set (events (parse_npeaks env)) \<or> ev \<in> set (events (parse_yx env))
      \<or> ev = Call_get_spectrum (snd yx) (fst yx) \<or> ev = Call_get_nh3_model (priors n) n
      \<or> ev = Log_abort (snd yx) (fst yx)"
    by (auto simp: script_abort [OF assms(1-4)] events_pair)
  then show ?thesis
    using parse_npeaks_events [of ev env] parse_yx_events [of ev env] by auto
qed

lemma from_guard_sampler_reached:
  assumes "\<not> no_valid_chans env" and "sanity_check env n"
  shows "Call_pymultinest_run (chains_base yx n) n_live_points sampling_efficiency
           \<in> set (events (from_guard env n yx plotting))
         \<longleftrightarrow> outcome (make_chains_dir env yx) = Inr ()"
proof (cases "outcome (make_chains_dir env yx)")
  case (Inl e)
  then show ?thesis
    by (simp add: from_guard_pass [OF assms] events_seq make_chains_dir_events)
next
  case (Inr u)
  then show ?thesis
    by (simp add: from_guard_pass [OF assms] events_seq run_sampler_events)
qed

text \<open>
  Claim C2, as amended. If the spectrum has no channel with finite flux, or the
  log-likelihood at \<open>[15, 5, 15, 0.2, 7, 0.5]\<close> repeated \<open>n\<close> times is not finite, the
  script logs the pixel (\<open>x\<close> first) and leaves through \<^verbatim>\<open>sys.exit()\<close>, exit status 0,
  having called neither \<^verbatim>\<open>os.makedirs\<close> nor the sampler nor \<^verbatim>\<open>savefig\<close>. Otherwise
  it goes on to the directory step and then to the sampler, which is called exactly
  when the directory step does not raise.
\<close>

theorem C2_sanity_guard:
  "no_valid_chans env = (\<forall>v \<in> set (ydata env). \<not> isfinite v)
   \<and> sanity_check env n =
        isfinite (log_likelihood env (concat (replicate (nat n) [15, 5, 15, 0.2, 7, 0.5])))
   \<and> (no_valid_chans env \<or> \<not> sanity_check env n \<longrightarrow>
        from_guard env n yx plotting = ([Log_abort (snd yx) (fst yx)], Inl (SystemExit None))
        \<and> exit_status (outcome (from_guard env n yx plotting)) = 0
        \<and> (outcome (parse_npeaks env) = Inr n \<and> outcome (parse_yx env) = Inr yx
             \<and> outcome (parse_plotting env) = Inr plotting \<longrightarrow>
             outcome (script env) = Inl (SystemExit None)
             \<and> exit_status (outcome (script env)) = 0
             \<and> last (events (script env)) = Log_abort (snd yx) (fst yx)
             \<and> (\<forall>ev \<in> set (events (script env)). \<not> writes_output ev)))
   \<and> (\<not> no_valid_chans env \<and> sanity_check env n \<longrightarrow>
        from_guard env n yx plotting =
          seq (make_chains_dir env yx)
            (\<lambda>u. seq (run_sampler env n yx) (\<lambda>u. post_sampling env n yx plotting))
        \<and> (Call_pymultinest_run (chains_base yx n) n_live_points sampling_efficiency
               \<in> set (events (from_guard env n yx plotting))
             \<longleftrightarrow> outcome (make_chains_dir env yx) = Inr ()))"
proof (intro conjI impI)
  show "no_valid_chans env = (\<forall>v \<in> set (ydata env). \<not> isfinite v)"
    by (simp add: no_valid_chans_def list_ex_iff)
  show "sanity_check env n =
        isfinite (log_likelihood env (concat (replicate (nat n) [15, 5, 15, 0.2, 7, 0.5])))"
    by (simp add: sanity_check_def py_list_mul_def)
next
  assume g: "no_valid_chans env \<or> \<not> sanity_check env n"
  then show a: "from_guard env n yx plotting = ([Log_abort (snd yx) (fst yx)], Inl (SystemExit None))"
    by (rule from_guard_abort)
  show "exit_status (outcome (from_guard env n yx plotting)) = 0"
    by (simp add: a outcome_pair)
next
  assume g: "no_valid_chans env \<or> \<not> sanity_check env n"
    and p: "outcome (parse_npeaks env) = Inr n \<and> outcome (parse_yx env) = Inr yx
             \<and> outcome (parse_plotting env) = Inr plotting"
  from p have p1: "outcome (parse_npeaks env) = Inr n" and p2: "outcome (parse_yx env) = Inr yx"
    and p3: "outcome (parse_plotting env) = Inr plotting" by simp_all
  note s = script_abort [OF p1 p2 p3 g]
  show o: "outcome (script env) = Inl (SystemExit None)"
    by (simp add: s outcome_pair)
  show "exit_status (outcome (script env)) = 0"
    by (simp add: o)
  show "last (events (script env)) = Log_abort (snd yx) (fst yx)"
    by (simp add: s events_pair)
  show "\<forall>ev \<in> set (events (script env)). \<not> writes_output ev"
    using script_abort_quiet [OF p1 p2 p3 g] by blast
next
  assume g: "\<not> no_valid_chans env \<and> sanity_check env n"
  then have g1: "\<not> no_valid_chans env" and g2: "sanity_check env n" by simp_all
  show "from_guard env n yx plotting =
          seq (make_chains_dir env yx)
            (\<lambda>u. seq (run_sampler env n yx) (\<lambda>u. post_sampling env n yx plotting))"
    using g1 g2 by (rule from_guard_pass)
  show "Call_pymultinest_run (chains_base yx n) n_live_points sampling_efficiency
               \<in> set (events (from_guard env n yx plotting))
             \<longleftrightarrow> outcome (make_chains_dir env yx) = Inr ()"
    using g1 g2 by (rule from_guard_sampler_reached)
qed

lemma script_env_default_parsed:
  "argv env = [''innocent_script.py''] \<Longrightarrow>
     outcome (parse_npeaks env) = Inr 2 \<and> outcome (parse_yx env) = Inr (140, 112)
     \<and> outcome (parse_plotting env) = Inr False"
  by (simp add: parse_npeaks_missing parse_yx_missing_y parse_plotting_missing outcome_pair)

theorem C2_sanity_guard_witness:
  "no_valid_chans (env_default\<lparr>ydata := [NaN, PosInf]\<rparr>)
   \<and> outcome (script (env_default\<lparr>ydata := [NaN, PosInf]\<rparr>)) = Inl (SystemExit None)
   \<and> exit_status (outcome (script (env_default\<lparr>ydata := [NaN, PosInf]\<rparr>))) = 0
   \<and> last (events (script (env_default\<lparr>ydata := [NaN, PosInf]\<rparr>))) = Log_abort 112 140
   \<and> \<not> no_valid_chans env_default \<and> sanity_check env_default 2
   \<and> Call_pymultinest_run (ChainsBase 112 140 2) 400 0.8
        \<in> set (events (from_guard env_default 2 (140, 112) False))"
proof -
  let ?e = "env_default\<lparr>ydata := [NaN, PosInf]\<rparr>"
  have g: "no_valid_chans ?e"
    by (simp add: no_valid_chans_def env_default_def)
  have p: "outcome (parse_npeaks ?e) = Inr 2 \<and> outcome (parse_yx ?e) = Inr (140, 112)
     \<and> outcome (parse_plotting ?e) = Inr False"
    by (rule script_env_default_parsed) (simp add: env_default_def)
  have h: "\<not> no_valid_chans env_default \<and> sanity_check env_default 2"
    by (simp add: no_valid_chans_def sanity_check_def env_default_def)
  have m: "outcome (make_chains_dir env_default (140, 112)) = Inr ()"
    by (simp add: make_chains_dir_def makedirs_handler_def env_default_def outcome_pair)
  from g p C2_sanity_guard [of ?e 2 "(140, 112)" False]
  have a: "outcome (script ?e) = Inl (SystemExit None)
         \<and> exit_status (outcome (script ?e)) = 0
         \<and> last (events (script ?e)) = Log_abort (snd (140::int, 112::int)) (fst (140::int, 112::int))"
    by blast
  from h m C2_sanity_guard [of env_default 2 "(140, 112)" False]
  have b: "Call_pymultinest_run (chains_base (140, 112) 2) n_live_points sampling_efficiency
               \<in> set (events (from_guard env_default 2 (140, 112) False))"
    by blast
  from b have b': "Call_pymultinest_run (ChainsBase 112 140 2) 400 0.8
        \<in> set (events (from_guard env_default 2 (140, 112) False))"
    by (simp add: chains_base_def n_live_points_def sampling_efficiency_def)
  from a have a': "outcome (script ?e) = Inl (SystemExit None)
         \<and> exit_status (outcome (script ?e)) = 0
         \<and> last (events (script ?e)) = Log_abort 112 140"
    by simp
  from g a' h b' show ?thesis by blast
qed

theorem C2_counterexample:
  "\<not> no_valid_chans (env_default\<lparr>makedirs_result := Some (OSError (Some 13))\<rparr>)
   \<and> sanity_check (env_default\<lparr>makedirs_result := Some (OSError (Some 13))\<rparr>) 2
   \<and> script (env_default\<lparr>makedirs_result := Some (OSError (Some 13))\<rparr>) =
       ([Log_npeaks_default 2, Log_xy_default 112 140, Call_get_spectrum 112 140,
         Call_get_nh3_model (priors 2) 2, Call_makedirs (ChainsDir 112 140)],
        Inl (OSError (Some 13)))"
proof -
  let ?e = "env_default\<lparr>makedirs_result := Some (OSError (Some 13))\<rparr>"
  have l: "length (argv ?e) \<le> 1" by (simp add: env_default_def)
  have h: "\<not> no_valid_chans ?e" "sanity_check ?e 2"
    by (simp_all add: no_valid_chans_def sanity_check_def env_default_def)
  have m: "make_chains_dir ?e (140, 112) = ([Call_makedirs (ChainsDir 112 140)], Inl (OSError (Some 13)))"
    by (simp add: make_chains_dir_def makedirs_handler_def env_default_def chains_dir_def)
  have "script ?e = seq ([Log_npeaks_default 2, Log_xy_default 112 140,
                Call_get_spectrum 112 140, Call_get_nh3_model (priors 2) 2], Inr ())
            (\<lambda>u. from_guard ?e 2 (140, 112) False)"
    using l
    by (simp add: script_def parse_npeaks_missing parse_yx_missing_y parse_plotting_missing
        load_model_def seq_Inr)
  also have "\<dots> = ([Log_npeaks_default 2, Log_xy_default 112 140, Call_get_spectrum 112 140,
         Call_get_nh3_model (priors 2) 2, Call_makedirs (ChainsDir 112 140)],
        Inl (OSError (Some 13)))"
    by (simp add: from_guard_pass [OF h] m seq_Inr seq_Inl)
  finally show ?thesis using h by simp
qed

subsection \<open>The sampler and the blocks after it\<close>

lemma i_am_root_total: "i_am_root env = Inr (comm_rank env = None \<or> comm_rank env = Some 0)"
  by (simp add: i_am_root_def mpi_rank_def split: option.split)

lemma post_sampling_off: "post_sampling env n yx False = ([], Inr ())"
  by (simp add: post_sampling_def plot_switches_def evidence_block_def fit_block_def
      corner_block_def i_am_root_total seq_Inr)

lemma sanity_guard_events: "ev \<in> set (events (sanity_guard env n yx)) \<Longrightarrow> \<not> after_sampler ev"
  by (auto simp: sanity_guard_def events_pair split: if_splits)

lemma from_guard_off:
  "from_guard env n yx False =
     seq (sanity_guard env n yx) (\<lambda>u. seq (make_chains_dir env yx) (\<lambda>u. run_sampler env n yx))"
proof -
  have "seq (run_sampler env n yx) (\<lambda>u. post_sampling env n yx False) = run_sampler env n yx"
    by (simp add: run_sampler_def post_sampling_off seq_def split: option.split)
  then show ?thesis by (simp add: from_guard_def)
qed

lemma from_guard_off_events:
  assumes "ev \<in> set (events (from_guard env n yx False))"
  shows "\<not> after_sampler ev"
proof -
  from assms have "ev \<in> set (events (sanity_guard env n yx))
      \<or> ev \<in> set (events (make_chains_dir env yx)) \<or> ev \<in> set (events (run_sampler env n yx))"
    unfolding from_guard_off by (auto dest!: events_seq_cases)
  then show ?thesis
    using sanity_guard_events [of ev env n yx]
    by (auto simp: make_chains_dir_events run_sampler_events split: if_splits)
qed

lemma script_off_events:
  assumes "outcome (parse_plotting env) = Inr False" and "ev \<in> set (events (script env))"
  shows "\<not> after_sampler ev"
proof -
  from assms(2) have "ev \<in> set (events (parse_npeaks env)) \<or> ev \<in> set (events (parse_yx env))
      \<or> ev \<in> set (events (parse_plotting env))
      \<or> (\<exists>n yx. ev \<in> set (events (load_model env n yx)))
      \<or> (\<exists>n yx. ev \<in> set (events (from_guard env n yx False)))"
    unfolding script_def using assms(1) by (fastforce dest!: events_seq_cases)
  then show ?thesis
    using parse_npeaks_events [of ev env] parse_yx_events [of ev env] load_model_events [of ev env]
      from_guard_off_events [of ev env]
    by (auto simp: parse_plotting_events)
qed

lemma from_guard_sampler_raises:
  assumes "\<not> no_valid_chans env" and "sanity_check env n"
    and "outcome (make_chains_dir env yx) = Inr ()" and "sampler_result env = Some e"
  shows "from_guard env n yx plotting =
     (events (make_chains_dir env yx)
        @ [Call_pymultinest_run (chains_base yx n) n_live_points sampling_efficiency], Inl e)"
  using assms(3,4)
  by (simp add: from_guard_pass [OF assms(1,2)] outcome_seq_Inr run_sampler_def seq_Inl events_pair outcome_pair)

lemma from_guard_sampler_returns_off:
  assumes "\<not> no_valid_chans env" and "sanity_check env n"
    and "outcome (make_chains_dir env yx) = Inr ()" and "sampler_result env = None"
  shows "from_guard env n yx False =
     (events (make_chains_dir env yx)
        @ [Call_pymultinest_run (chains_base yx n) n_live_points sampling_efficiency], Inr ())"
  using assms(3,4)
  by (simp add: from_guard_pass [OF assms(1,2)] outcome_seq_Inr run_sampler_def seq_Inr
      post_sampling_off events_pair outcome_pair)

text \<open>
  Claim C7. No handler surrounds the call of the sampler: when \<^verbatim>\<open>pymultinest.run\<close>
  raises, the very same exception ends the sampler step, the rest of the script from
  the sanity check on, and the script; the call is the last thing the run did.
\<close>

theorem C7_sampler_error_propagates:
  "sampler_result env = Some e \<longrightarrow>
     run_sampler env n yx =
       ([Call_pymultinest_run (chains_base yx n) n_live_points sampling_efficiency], Inl e)
     \<and> (\<not> no_valid_chans env \<and> sanity_check env n
          \<and> outcome (make_chains_dir env yx) = Inr () \<longrightarrow>
          outcome (from_guard env n yx plotting) = Inl e
          \<and> last (events (from_guard env n yx plotting)) =
              Call_pymultinest_run (chains_base yx n) n_live_points sampling_efficiency
          \<and> (outcome (parse_npeaks env) = Inr n \<and> outcome (parse_yx env) = Inr yx
               \<and> outcome (parse_plotting env) = Inr plotting \<longrightarrow>
               outcome (script env) = Inl e
               \<and> last (events (script env)) =
                   Call_pymultinest_run (chains_base yx n) n_live_points sampling_efficiency))"
proof (intro impI conjI)
  assume s: "sampler_result env = Some e"
  then show "run_sampler env n yx =
       ([Call_pymultinest_run (chains_base yx n) n_live_points sampling_efficiency], Inl e)"
    by (simp add: run_sampler_def)
next
  assume s: "sampler_result env = Some e"
    and g: "\<not> no_valid_chans env \<and> sanity_check env n
          \<and> outcome (make_chains_dir env yx) = Inr ()"
  from g have g1: "\<not> no_valid_chans env" and g2: "sanity_check env n"
    and g3: "outcome (make_chains_dir env yx) = Inr ()" by simp_all
  note f = from_guard_sampler_raises [OF g1 g2 g3 s]
  show "outcome (from_guard env n yx plotting) = Inl e"
    by (simp add: f outcome_pair)
  show "last (events (from_guard env n yx plotting)) =
              Call_pymultinest_run (chains_base yx n) n_live_points sampling_efficiency"
    by (simp add: f events_pair)
next
  assume s: "sampler_result env = Some e"
    and g: "\<not> no_valid_chans env \<and> sanity_check env n
          \<and> outcome (make_chains_dir env yx) = Inr ()"
    and p: "outcome (parse_npeaks env) = Inr n \<and> outcome (parse_yx env) = Inr yx
               \<and> outcome (parse_plotting env) = Inr plotting"
  from g have g1: "\<not> no_valid_chans env" and g2: "sanity_check env n"
    and g3: "outcome (make_chains_dir env yx) = Inr ()" by simp_all
  from p have p1: "outcome (parse_npeaks env) = Inr n" and p2: "outcome (parse_yx env) = Inr yx"
    and p3: "outcome (parse_plotting env) = Inr plotting" by simp_all
  note f = from_guard_sampler_raises [OF g1 g2 g3 s]
  note c = script_parsed [OF p1 p2 p3]
  show "outcome (script env) = Inl e"
    by (simp add: c f seq_Inr outcome_pair)
  show "last (events (script env)) =
                   Call_pymultinest_run (chains_base yx n) n_live_points sampling_efficiency"
    by (simp add: c f seq_Inr events_pair)
qed

theorem C7_sampler_error_propagates_witness:
  "sampler_result (env_default\<lparr>sampler_result := Some (OtherError ''MultiNest'')\<rparr>)
      = Some (OtherError ''MultiNest'')
   \<and> outcome (script (env_default\<lparr>sampler_result := Some (OtherError ''MultiNest'')\<rparr>))
      = Inl (OtherError ''MultiNest'')
   \<and> last (events (script (env_default\<lparr>sampler_result := Some (OtherError ''MultiNest'')\<rparr>)))
      = Call_pymultinest_run (ChainsBase 112 140 2) 400 0.8"
proof -
  let ?e = "env_default\<lparr>sampler_result := Some (OtherError ''MultiNest'')\<rparr>"
  have s: "sampler_result ?e = Some (OtherError ''MultiNest'')" by simp
  have g: "\<not> no_valid_chans ?e \<and> sanity_check ?e 2
          \<and> outcome (make_chains_dir ?e (140, 112)) = Inr ()"
    by (simp add: no_valid_chans_def sanity_check_def make_chains_dir_def makedirs_handler_def
        env_default_def outcome_pair)
  have p: "outcome (parse_npeaks ?e) = Inr 2 \<and> outcome (parse_yx ?e) = Inr (140, 112)
     \<and> outcome (parse_plotting ?e) = Inr False"
    by (rule script_env_default_parsed) (simp add: env_default_def)
  from s g p C7_sampler_error_propagates [of ?e "OtherError ''MultiNest''" 2 "(140, 112)" False]
  have "outcome (script ?e) = Inl (OtherError ''MultiNest'')
     \<and> last (events (script ?e)) =
          Call_pymultinest_run (chains_base (140, 112) 2) n_live_points sampling_efficiency"
    by blast
  then show ?thesis
    using s by (simp add: chains_base_def n_live_points_def sampling_efficiency_def)
qed

text \<open>
  Claim C10. With plotting off, which is what a missing fourth argument gives, nothing
  of lines 179 to 248 runs: the three blocks after the sampler produce no event, so no
  evidence is read, no Bayes factor reported and no figure drawn or saved, in any run of
  the script. When the sampler returns, its call is the last event and the script ends
  normally.
\<close>

theorem C10_plotting_off:
  "post_sampling env n yx False = ([], Inr ())
   \<and> from_guard env n yx False =
       seq (sanity_guard env n yx) (\<lambda>u. seq (make_chains_dir env yx) (\<lambda>u. run_sampler env n yx))
   \<and> (length (argv env) \<le> 4 \<longrightarrow> outcome (parse_plotting env) = Inr False)
   \<and> (outcome (parse_plotting env) = Inr False \<longrightarrow>
        (\<forall>ev \<in> set (events (script env)). \<not> after_sampler ev))
   \<and> (outcome (parse_npeaks env) = Inr n \<and> outcome (parse_yx env) = Inr yx
        \<and> outcome (parse_plotting env) = Inr False
        \<and> \<not> no_valid_chans env \<and> sanity_check env n
        \<and> outcome (make_chains_dir env yx) = Inr () \<and> sampler_result env = None \<longrightarrow>
        outcome (script env) = Inr ()
        \<and> last (events (script env)) =
            Call_pymultinest_run (chains_base yx n) n_live_points sampling_efficiency)"
proof (intro conjI impI)
  show "post_sampling env n yx False = ([], Inr ())"
    by (rule post_sampling_off)
  show "from_guard env n yx False =
       seq (sanity_guard env n yx) (\<lambda>u. seq (make_chains_dir env yx) (\<lambda>u. run_sampler env n yx))"
    by (rule from_guard_off)
next
  assume "length (argv env) \<le> 4"
  then show "outcome (parse_plotting env) = Inr False"
    by (simp add: parse_plotting_missing outcome_pair)
next
  assume "outcome (parse_plotting env) = Inr False"
  then show "\<forall>ev \<in> set (events (script env)). \<not> after_sampler ev"
    using script_off_events [of env] by blast
next
  assume a: "outcome (parse_npeaks env) = Inr n \<and> outcome (parse_yx env) = Inr yx
        \<and> outcome (parse_plotting env) = Inr False
        \<and> \<not> no_valid_chans env \<and> sanity_check env n
        \<and> outcome (make_chains_dir env yx) = Inr () \<and> sampler_result env = None"
  then have p1: "outcome (parse_npeaks env) = Inr n" and p2: "outcome (parse_yx env) = Inr yx"
    and p3: "outcome (parse_plotting env) = Inr False"
    and g1: "\<not> no_valid_chans env" and g2: "sanity_check env n"
    and g3: "outcome (make_chains_dir env yx) = Inr ()" and s: "sampler_result env = None"
    by simp_all
  note f = from_guard_sampler_returns_off [OF g1 g2 g3 s]
  note c = script_parsed [OF p1 p2 p3]
  show "outcome (script env) = Inr ()"
    by (simp add: c f seq_Inr outcome_pair)
  show "last (events (script env)) =
            Call_pymultinest_run (chains_base yx n) n_live_points sampling_efficiency"
    by (simp add: c f seq_Inr events_pair)
qed

theorem C10_plotting_off_witness:
  "length (argv env_default) \<le> 4
   \<and> outcome (parse_plotting env_default) = Inr False
   \<and> outcome (script env_default) = Inr ()
   \<and> last (events (script env_default)) = Call_pymultinest_run (ChainsBase 112 140 2) 400 0.8
   \<and> Call_pymultinest_run (ChainsBase 112 140 2) 400 0.8 \<in> set (events (script env_default))
   \<and> \<not> after_sampler (Call_pymultinest_run (ChainsBase 112 140 2) 400 0.8)"
proof -
  have l: "length (argv env_default) \<le> 4" by (simp add: env_default_def)
  have g: "\<not> no_valid_chans env_default \<and> sanity_check env_default 2
          \<and> outcome (make_chains_dir env_default (140, 112)) = Inr ()
          \<and> sampler_result env_default = None"
    by (simp add: no_valid_chans_def sanity_check_def make_chains_dir_def makedirs_handler_def
        env_default_def outcome_pair)
  have p: "outcome (parse_npeaks env_default) = Inr 2
     \<and> outcome (parse_yx env_default) = Inr (140, 112)
     \<and> outcome (parse_plotting env_default) = Inr False"
    by (rule script_env_default_parsed) (simp add: env_default_def)
  note t = C10_plotting_off [of env_default 2 "(140, 112)"]
  from l g p t
  have a: "outcome (script env_default) = Inr ()
     \<and> last (events (script env_default)) =
          Call_pymultinest_run (chains_base (140, 112) 2) n_live_points sampling_efficiency"
    by blast
  from p t have b: "\<forall>ev \<in> set (events (script env_default)). \<not> after_sampler ev"
    by blast
  have m: "Call_pymultinest_run (ChainsBase 112 140 2) 400 0.8 \<in> set (events (script env_default))"
  proof -
    have "script env_default =
        seq ([Log_npeaks_default 2, Log_xy_default 112 140,
              Call_get_spectrum 112 140, Call_get_nh3_model (priors 2) 2], Inr ())
          (\<lambda>u. from_guard env_default 2 (140, 112) False)"
      using script_parsed [of env_default 2 "(140, 112)" False] p
      by (simp add: parse_npeaks_missing parse_yx_missing_y env_default_def events_pair)
    moreover have "from_guard env_default 2 (140, 112) False =
        ([Call_makedirs (ChainsDir 112 140), Call_pymultinest_run (ChainsBase 112 140 2) 400 0.8],
         Inr ())"
      using from_guard_sampler_returns_off [of env_default 2 "(140, 112)"] g
      by (simp add: make_chains_dir_events chains_dir_def chains_base_def n_live_points_def
          sampling_efficiency_def env_default_def)
    ultimately show ?thesis by (simp add: seq_Inr events_pair)
  qed
  from b m have "\<not> after_sampler (Call_pymultinest_run (ChainsBase 112 140 2) 400 0.8)"
    by blast
  with l p a m show ?thesis
    by (simp add: chains_base_def n_live_points_def sampling_efficiency_def)
qed

subsection \<open>The evidence report\<close>

lemma py_getitem_in_range:
  "0 \<le> i \<Longrightarrow> nat i < length xs \<Longrightarrow> py_getitem xs i = Inr (xs ! nat i)"
  by (simp add: py_getitem_def)

lemma Zs_diff_in_range:
  "0 \<le> i \<Longrightarrow> nat i < length Zs \<Longrightarrow> 0 \<le> j \<Longrightarrow> nat j < length Zs \<Longrightarrow>
     Zs_diff Zs i j = Inr (Zs ! nat i - Zs ! nat j)"
  by (simp add: Zs_diff_def py_getitem_in_range)

lemma report_bayes_factors_in_range:
  assumes "0 < N" and "nat N < length Zs"
  shows "report_bayes_factors out Zs N =
     (out N (N - 1) (Zs ! nat N - Zs ! nat (N - 1))
        # (if N > 1 then [out N 0 (Zs ! nat N - Zs ! 0)] else []), Inr ())"
proof -
  have a: "Zs_diff Zs N (N - 1) = Inr (Zs ! nat N - Zs ! nat (N - 1))"
    using assms by (intro Zs_diff_in_range) simp_all
  have b: "Zs_diff Zs N 0 = Inr (Zs ! nat N - Zs ! 0)"
  proof -
    from assms(2) have "Zs \<noteq> []" by auto
    with assms show ?thesis using Zs_diff_in_range [of N Zs 0] by simp
  qed
  show ?thesis
    by (simp add: report_bayes_factors_def report_bayes_def a b seq_Inr)
qed

lemma evidence_block_root:
  assumes "i_am_root env = Inr True" and "baseline env = (es, Inr lnZ0)"
  shows "evidence_block env N (y, x) True =
     seq ([Call_analyzer_xy x y N, Log_lnZ N (global_evidence env)] @ es
            @ [Call_lnZ_xy [0..N] (lnZ0 y x)], Inr ())
       (\<lambda>u. seq (report_bayes_factors Log_bayes (lnZ_xy env [0..N] (lnZ0 y x)) N)
          (\<lambda>u. ([], Inr (Some (lnZ_xy env [0..N] (lnZ0 y x))))))"
  by (simp add: evidence_block_def assms seq_Inr)

lemma evidence_block_skipped:
  "i_am_root env = Inr False \<or> \<not> plot_fit \<Longrightarrow> evidence_block env N yx plot_fit = ([], Inr None)"
  by (auto simp: evidence_block_def i_am_root_total seq_Inr)

lemma evidence_block_reports:
  assumes "i_am_root env = Inr True" and "baseline env = (es, Inr lnZ0)"
    and "0 < N" and "nat N < length (lnZ_xy env [0..N] (lnZ0 y x))"
  shows "evidence_block env N (y, x) True =
     ([Call_analyzer_xy x y N, Log_lnZ N (global_evidence env)] @ es
        @ [Call_lnZ_xy [0..N] (lnZ0 y x),
           Log_bayes N (N - 1) (lnZ_xy env [0..N] (lnZ0 y x) ! nat N
                                 - lnZ_xy env [0..N] (lnZ0 y x) ! nat (N - 1))]
        @ (if N > 1
           then [Log_bayes N 0 (lnZ_xy env [0..N] (lnZ0 y x) ! nat N
                                 - lnZ_xy env [0..N] (lnZ0 y x) ! 0)]
           else []),
      Inr (Some (lnZ_xy env [0..N] (lnZ0 y x))))"
  by (simp add: evidence_block_root [OF assms(1,2)] report_bayes_factors_in_range [OF assms(3,4)]
      seq_Inr)

lemma post_sampling_events_prefix:
  "\<exists>rest. events (post_sampling env N yx plotting) =
     events (evidence_block env N yx plotting) @ rest"
  by (simp add: post_sampling_def plot_switches_def events_seq)

lemma from_guard_sampler_returns:
  assumes "\<not> no_valid_chans env" and "sanity_check env n"
    and "outcome (make_chains_dir env yx) = Inr ()" and "sampler_result env = None"
  shows "events (from_guard env n yx plotting) =
     events (make_chains_dir env yx)
        @ [Call_pymultinest_run (chains_base yx n) n_live_points sampling_efficiency]
        @ events (post_sampling env n yx plotting)"
  using assms(3,4)
  by (simp add: from_guard_pass [OF assms(1,2)] events_seq run_sampler_def events_pair outcome_pair)

text \<open>
  Claim C3, as amended. The evidence report is part of the block that runs only on the
  coordinator and only with plotting on. There, for every \<open>N > 0\<close>, with the baseline
  read or recomputed and the evidences of the models 0 to \<open>N\<close> returned, the block logs
  \<open>ln(Z_N / Z_(N-1))\<close> as \<open>Zs[N] - Zs[N-1]\<close> and, for \<open>N > 1\<close>, \<open>ln(Z_N / Z_0)\<close> as
  \<open>Zs[N] - Zs[0]\<close>; for \<open>N = 1\<close> the two are one number and one message. Off the
  coordinator or with plotting off the block does nothing. In a run that reaches the
  sampler and sees it return, the events of the block follow the sampler call.
\<close>

theorem C3_bayes_factors:
  "(i_am_root env = Inr True \<and> baseline env = (es, Inr lnZ0) \<and> 0 < N
      \<and> nat N < length (lnZ_xy env [0..N] (lnZ0 y x)) \<longrightarrow>
      evidence_block env N (y, x) True =
        ([Call_analyzer_xy x y N, Log_lnZ N (global_evidence env)] @ es
           @ [Call_lnZ_xy [0..N] (lnZ0 y x),
              Log_bayes N (N - 1) (lnZ_xy env [0..N] (lnZ0 y x) ! nat N
                                    - lnZ_xy env [0..N] (lnZ0 y x) ! nat (N - 1))]
           @ (if N > 1
              then [Log_bayes N 0 (lnZ_xy env [0..N] (lnZ0 y x) ! nat N
                                    - lnZ_xy env [0..N] (lnZ0 y x) ! 0)]
              else []),
         Inr (Some (lnZ_xy env [0..N] (lnZ0 y x))))
      \<and> Log_bayes N (N - 1) (lnZ_xy env [0..N] (lnZ0 y x) ! nat N
                               - lnZ_xy env [0..N] (lnZ0 y x) ! nat (N - 1))
           \<in> set (events (evidence_block env N (y, x) True))
      \<and> Log_bayes N 0 (lnZ_xy env [0..N] (lnZ0 y x) ! nat N - lnZ_xy env [0..N] (lnZ0 y x) ! 0)
           \<in> set (events (evidence_block env N (y, x) True)))
   \<and> (i_am_root env = Inr False \<or> \<not> plot_fit \<longrightarrow>
        evidence_block env N (y, x) plot_fit = ([], Inr None))
   \<and> (\<not> no_valid_chans env \<and> sanity_check env N
        \<and> outcome (make_chains_dir env (y, x)) = Inr () \<and> sampler_result env = None \<longrightarrow>
        (\<exists>rest. events (from_guard env N (y, x) plotting) =
           events (make_chains_dir env (y, x))
             @ [Call_pymultinest_run (chains_base (y, x) N) n_live_points sampling_efficiency]
             @ events (evidence_block env N (y, x) plotting) @ rest))"
proof (intro conjI impI)
  assume a: "i_am_root env = Inr True \<and> baseline env = (es, Inr lnZ0) \<and> 0 < N
      \<and> nat N < length (lnZ_xy env [0..N] (lnZ0 y x))"
  then have r: "i_am_root env = Inr True" and b: "baseline env = (es, Inr lnZ0)"
    and n: "0 < N" and l: "nat N < length (lnZ_xy env [0..N] (lnZ0 y x))" by simp_all
  show e: "evidence_block env N (y, x) True =
        ([Call_analyzer_xy x y N, Log_lnZ N (global_evidence env)] @ es
           @ [Call_lnZ_xy [0..N] (lnZ0 y x),
              Log_bayes N (N - 1) (lnZ_xy env [0..N] (lnZ0 y x) ! nat N
                                    - lnZ_xy env [0..N] (lnZ0 y x) ! nat (N - 1))]
           @ (if N > 1
              then [Log_bayes N 0 (lnZ_xy env [0..N] (lnZ0 y x) ! nat N
                                    - lnZ_xy env [0..N] (lnZ0 y x) ! 0)]
              else []),
         Inr (Some (lnZ_xy env [0..N] (lnZ0 y x))))"
    using r b n l by (rule evidence_block_reports)
  show "Log_bayes N (N - 1) (lnZ_xy env [0..N] (lnZ0 y x) ! nat N
                               - lnZ_xy env [0..N] (lnZ0 y x) ! nat (N - 1))
           \<in> set (events (evidence_block env N (y, x) True))"
    by (simp add: e events_pair)
  show "Log_bayes N 0 (lnZ_xy env [0..N] (lnZ0 y x) ! nat N - lnZ_xy env [0..N] (lnZ0 y x) ! 0)
           \<in> set (events (evidence_block env N (y, x) True))"
  proof (cases "N > 1")
    case True
    then show ?thesis by (simp add: e events_pair)
  next
    case False
    with n have "N = 1" by simp
    with e show ?thesis by (simp add: events_pair)
  qed
next
  assume "i_am_root env = Inr False \<or> \<not> plot_fit"
  then show "evidence_block env N (y, x) plot_fit = ([], Inr None)"
    by (rule evidence_block_skipped)
next
  assume a: "\<not> no_valid_chans env \<and> sanity_check env N
        \<and> outcome (make_chains_dir env (y, x)) = Inr () \<and> sampler_result env = None"
  then have g1: "\<not> no_valid_chans env" and g2: "sanity_check env N"
    and g3: "outcome (make_chains_dir env (y, x)) = Inr ()" and s: "sampler_result env = None"
    by simp_all
  obtain rest where "events (post_sampling env N (y, x) plotting) =
     events (evidence_block env N (y, x) plotting) @ rest"
    using post_sampling_events_prefix by blast
  then show "\<exists>rest. events (from_guard env N (y, x) plotting) =
           events (make_chains_dir env (y, x))
             @ [Call_pymultinest_run (chains_base (y, x) N) n_live_points sampling_efficiency]
             @ events (evidence_block env N (y, x) plotting) @ rest"
    by (simp add: from_guard_sampler_returns [OF g1 g2 g3 s])
qed

lemma lnZ_table_values:
  "lnZ_table [0..2] z = [z, - 80, - 85]" "lnZ_table [0..1] z = [z, - 80]"
  "lnZ_table [0, 1, 2] z = [z, - 80, - 85]" "lnZ_table [0, 1] z = [z, - 80]"
  by (simp_all add: lnZ_table_def upto.simps)

lemma baseline_env_default: "baseline env_default = ([Call_getdata], Inr (\<lambda>y x. - 100))"
  by (simp add: baseline_def env_default_def)

lemma i_am_root_env_default: "i_am_root env_default = Inr True"
  by (simp add: i_am_root_total env_default_def)

theorem C3_bayes_factors_witness:
  "i_am_root env_default = Inr True
   \<and> Log_bayes 2 1 (- 5) \<in> set (events (evidence_block env_default 2 (140, 112) True))
   \<and> Log_bayes 2 0 15 \<in> set (events (evidence_block env_default 2 (140, 112) True))
   \<and> evidence_block env_default 1 (140, 112) True =
       ([Call_analyzer_xy 112 140 1, Log_lnZ 1 (- 85), Call_getdata,
         Call_lnZ_xy [0, 1] (- 100), Log_bayes 1 0 20], Inr (Some [- 100, - 80]))
   \<and> evidence_block env_default 2 (140, 112) False = ([], Inr None)"
proof -
  have z: "lnZ_xy env_default = lnZ_table" and ge: "global_evidence env_default = - 85"
    by (simp_all add: env_default_def)
  have h2: "i_am_root env_default = Inr True
      \<and> baseline env_default = ([Call_getdata], Inr (\<lambda>y x. - 100)) \<and> (0::int) < 2
      \<and> nat 2 < length (lnZ_xy env_default [0..2] ((\<lambda>y x. - 100) (140::int) (112::int)))"
    by (simp add: i_am_root_env_default baseline_env_default z lnZ_table_values)
  have h1: "i_am_root env_default = Inr True
      \<and> baseline env_default = ([Call_getdata], Inr (\<lambda>y x. - 100)) \<and> (0::int) < 1
      \<and> nat 1 < length (lnZ_xy env_default [0..1] ((\<lambda>y x. - 100) (140::int) (112::int)))"
    by (simp add: i_am_root_env_default baseline_env_default z lnZ_table_values)
  note t2 = C3_bayes_factors [of env_default "[Call_getdata]" "\<lambda>y x. - 100" 2 140 112 False False]
  note t1 = C3_bayes_factors [of env_default "[Call_getdata]" "\<lambda>y x. - 100" 1 140 112 False False]
  from h2 t2 have a: "Log_bayes 2 (2 - 1)
        (lnZ_xy env_default [0..2] ((\<lambda>y x. - 100) (140::int) (112::int)) ! nat 2
          - lnZ_xy env_default [0..2] ((\<lambda>y x. - 100) (140::int) (112::int)) ! nat (2 - 1))
      \<in> set (events (evidence_block env_default 2 (140, 112) True))
    \<and> Log_bayes 2 0
        (lnZ_xy env_default [0..2] ((\<lambda>y x. - 100) (140::int) (112::int)) ! nat 2
          - lnZ_xy env_default [0..2] ((\<lambda>y x. - 100) (140::int) (112::int)) ! 0)
      \<in> set (events (evidence_block env_default 2 (140, 112) True))"
    by blast
  have n: "nat 2 = Suc (Suc 0)" by simp
  from a have a': "Log_bayes 2 1 (- 5) \<in> set (events (evidence_block env_default 2 (140, 112) True))
    \<and> Log_bayes 2 0 15 \<in> set (events (evidence_block env_default 2 (140, 112) True))"
    by (simp add: z lnZ_table_values n)
  from h1 t1 have b: "evidence_block env_default 1 (140, 112) True =
        ([Call_analyzer_xy 112 140 1, Log_lnZ 1 (global_evidence env_default)] @ [Call_getdata]
           @ [Call_lnZ_xy [0..1] ((\<lambda>y x. - 100) (140::int) (112::int)),
              Log_bayes 1 (1 - 1)
                (lnZ_xy env_default [0..1] ((\<lambda>y x. - 100) (140::int) (112::int)) ! nat 1
                  - lnZ_xy env_default [0..1] ((\<lambda>y x. - 100) (140::int) (112::int)) ! nat (1 - 1))]
           @ (if (1::int) > 1
              then [Log_bayes 1 0
                (lnZ_xy env_default [0..1] ((\<lambda>y x. - 100) (140::int) (112::int)) ! nat 1
                  - lnZ_xy env_default [0..1] ((\<lambda>y x. - 100) (140::int) (112::int)) ! 0)]
              else []),
         Inr (Some (lnZ_xy env_default [0..1] ((\<lambda>y x. - 100) (140::int) (112::int)))))"
    by blast
  from b have b': "evidence_block env_default 1 (140, 112) True =
       ([Call_analyzer_xy 112 140 1, Log_lnZ 1 (- 85), Call_getdata,
         Call_lnZ_xy [0, 1] (- 100), Log_bayes 1 0 20], Inr (Some [- 100, - 80]))"
    by (simp add: z ge lnZ_table_values upto.simps)
  from t2 have c: "evidence_block env_default 2 (140, 112) False = ([], Inr None)"
    by blast
  from a' b' c show ?thesis by (simp add: i_am_root_env_default)
qed

theorem C3_counterexample:
  "script env_default =
     ([Log_npeaks_default 2, Log_xy_default 112 140, Call_get_spectrum 112 140,
       Call_get_nh3_model (priors 2) 2, Call_makedirs (ChainsDir 112 140),
       Call_pymultinest_run (ChainsBase 112 140 2) 400 0.8], Inr ())"
proof -
  have g: "\<not> no_valid_chans env_default" "sanity_check env_default 2"
    "outcome (make_chains_dir env_default (140, 112)) = Inr ()"
    "sampler_result env_default = None"
    by (simp_all add: no_valid_chans_def sanity_check_def make_chains_dir_def makedirs_handler_def
        env_default_def outcome_pair)
  have p: "outcome (parse_npeaks env_default) = Inr 2"
    "outcome (parse_yx env_default) = Inr (140, 112)"
    "outcome (parse_plotting env_default) = Inr False"
    using script_env_default_parsed [of env_default] by (simp_all add: env_default_def)
  have "script env_default =
        seq ([Log_npeaks_default 2, Log_xy_default 112 140,
              Call_get_spectrum 112 140, Call_get_nh3_model (priors 2) 2], Inr ())
          (\<lambda>u. from_guard env_default 2 (140, 112) False)"
    using script_parsed [OF p]
    by (simp add: parse_npeaks_missing parse_yx_missing_y env_default_def events_pair)
  moreover have "from_guard env_default 2 (140, 112) False =
        ([Call_makedirs (ChainsDir 112 140), Call_pymultinest_run (ChainsBase 112 140 2) 400 0.8],
         Inr ())"
    using from_guard_sampler_returns_off [OF g]
    by (simp add: make_chains_dir_events chains_dir_def chains_base_def n_live_points_def
        sampling_efficiency_def env_default_def)
  ultimately show ?thesis by (simp add: seq_Inr)
qed

lemma baseline_fallback:
  assumes "getdata_result env = Inl e" and "e = FileNotFoundError \<or> (\<exists>m. e = OSError m)"
  shows "baseline env =
     ([Call_getdata, Call_make_cube_shh, Call_get_zero_evidence], Inr (zero_evidence env))"
  using assms by (auto simp: baseline_def)

lemma report_bayes_outcome:
  "outcome (report_bayes out Zs i j) = Inr () \<or> outcome (report_bayes out Zs i j) = Inl IndexError"
  by (auto simp: report_bayes_def Zs_diff_def py_getitem_def outcome_pair split: sum.splits)

lemma report_bayes_factors_outcome:
  "outcome (report_bayes_factors out Zs N) = Inr ()
     \<or> outcome (report_bayes_factors out Zs N) = Inl IndexError"
  using report_bayes_outcome [of out Zs N "N - 1"] report_bayes_outcome [of out Zs N 0]
  by (auto simp: report_bayes_factors_def outcome_seq outcome_pair split: sum.splits)

text \<open>
  Claim C6. When reading the cached baseline raises \<^verbatim>\<open>FileNotFoundError\<close> or another
  \<^verbatim>\<open>OSError\<close>, the handler takes the zero-component evidence computed from the cube
  and its error cube instead. On the coordinator with plotting on, the evidences are
  then fetched with that recomputed value at \<^verbatim>\<open>[y, x]\<close> as the baseline and the Bayes
  factors are computed from them; the read error is not the outcome of the block. No
  other process reads or recomputes the baseline.
\<close>

theorem C6_baseline_fallback:
  "getdata_result env = Inl e \<and> (e = FileNotFoundError \<or> (\<exists>m. e = OSError m)) \<longrightarrow>
     baseline env =
       ([Call_getdata, Call_make_cube_shh, Call_get_zero_evidence], Inr (zero_evidence env))
     \<and> (i_am_root env = Inr True \<longrightarrow>
          evidence_block env N (y, x) True =
            seq ([Call_analyzer_xy x y N, Log_lnZ N (global_evidence env), Call_getdata,
                  Call_make_cube_shh, Call_get_zero_evidence,
                  Call_lnZ_xy [0..N] (zero_evidence env y x)], Inr ())
              (\<lambda>u. seq (report_bayes_factors Log_bayes
                           (lnZ_xy env [0..N] (zero_evidence env y x)) N)
                 (\<lambda>u. ([], Inr (Some (lnZ_xy env [0..N] (zero_evidence env y x))))))
          \<and> outcome (evidence_block env N (y, x) True) \<noteq> Inl e
          \<and> (0 < N \<and> nat N < length (lnZ_xy env [0..N] (zero_evidence env y x)) \<longrightarrow>
               outcome (evidence_block env N (y, x) True) =
                 Inr (Some (lnZ_xy env [0..N] (zero_evidence env y x)))
               \<and> Log_bayes N (N - 1)
                    (lnZ_xy env [0..N] (zero_evidence env y x) ! nat N
                      - lnZ_xy env [0..N] (zero_evidence env y x) ! nat (N - 1))
                   \<in> set (events (evidence_block env N (y, x) True))))
     \<and> (i_am_root env = Inr False \<longrightarrow> evidence_block env N (y, x) True = ([], Inr None))"
proof (intro impI conjI)
  assume a: "getdata_result env = Inl e \<and> (e = FileNotFoundError \<or> (\<exists>m. e = OSError m))"
  then show "baseline env =
       ([Call_getdata, Call_make_cube_shh, Call_get_zero_evidence], Inr (zero_evidence env))"
    using baseline_fallback [of env e] by blast
next
  assume a: "getdata_result env = Inl e \<and> (e = FileNotFoundError \<or> (\<exists>m. e = OSError m))"
    and r: "i_am_root env = Inr True"
  from a have b: "baseline env =
       ([Call_getdata, Call_make_cube_shh, Call_get_zero_evidence], Inr (zero_evidence env))"
    using baseline_fallback [of env e] by blast
  show s: "evidence_block env N (y, x) True =
            seq ([Call_analyzer_xy x y N, Log_lnZ N (global_evidence env), Call_getdata,
                  Call_make_cube_shh, Call_get_zero_evidence,
                  Call_lnZ_xy [0..N] (zero_evidence env y x)], Inr ())
              (\<lambda>u. seq (report_bayes_factors Log_bayes
                           (lnZ_xy env [0..N] (zero_evidence env y x)) N)
                 (\<lambda>u. ([], Inr (Some (lnZ_xy env [0..N] (zero_evidence env y x))))))"
    using evidence_block_root [OF r b, of N y x] by simp
  from a have "e \<noteq> IndexError" by auto
  then show "outcome (evidence_block env N (y, x) True) \<noteq> Inl e"
    using report_bayes_factors_outcome [of Log_bayes "lnZ_xy env [0..N] (zero_evidence env y x)" N]
    by (auto simp: s outcome_seq outcome_pair split: sum.splits)
next
  assume a: "getdata_result env = Inl e \<and> (e = FileNotFoundError \<or> (\<exists>m. e = OSError m))"
    and r: "i_am_root env = Inr True"
    and n: "0 < N \<and> nat N < length (lnZ_xy env [0..N] (zero_evidence env y x))"
  from a have b: "baseline env =
       ([Call_getdata, Call_make_cube_shh, Call_get_zero_evidence], Inr (zero_evidence env))"
    using baseline_fallback [of env e] by blast
  from n have n1: "0 < N" and n2: "nat N < length (lnZ_xy env [0..N] (zero_evidence env y x))"
    by simp_all
  note t = evidence_block_reports [OF r b n1 n2]
  show "outcome (evidence_block env N (y, x) True) =
                 Inr (Some (lnZ_xy env [0..N] (zero_evidence env y x)))"
    by (simp add: t outcome_pair)
  show "Log_bayes N (N - 1)
                    (lnZ_xy env [0..N] (zero_evidence env y x) ! nat N
                      - lnZ_xy env [0..N] (zero_evidence env y x) ! nat (N - 1))
                   \<in> set (events (evidence_block env N (y, x) True))"
    by (simp add: t events_pair)
next
  assume "i_am_root env = Inr False"
  then show "evidence_block env N (y, x) True = ([], Inr None)"
    by (simp add: evidence_block_skipped)
qed

theorem C6_baseline_fallback_witness:
  "getdata_result (env_default\<lparr>getdata_result := Inl FileNotFoundError,
                                 zero_evidence := (\<lambda>y x. - 90)\<rparr>) = Inl FileNotFoundError
   \<and> baseline (env_default\<lparr>getdata_result := Inl FileNotFoundError,
                            zero_evidence := (\<lambda>y x. - 90)\<rparr>) =
       ([Call_getdata, Call_make_cube_shh, Call_get_zero_evidence], Inr (\<lambda>y x. - 90))
   \<and> outcome (evidence_block (env_default\<lparr>getdata_result := Inl FileNotFoundError,
                                            zero_evidence := (\<lambda>y x. - 90)\<rparr>) 1 (140, 112) True) =
       Inr (Some [- 90, - 80])
   \<and> Log_bayes 1 0 10
       \<in> set (events (evidence_block (env_default\<lparr>getdata_result := Inl FileNotFoundError,
                                            zero_evidence := (\<lambda>y x. - 90)\<rparr>) 1 (140, 112) True))"
proof -
  let ?e = "env_default\<lparr>getdata_result := Inl FileNotFoundError, zero_evidence := (\<lambda>y x. - 90)\<rparr>"
  have z: "lnZ_xy ?e = lnZ_table" and ze: "zero_evidence ?e = (\<lambda>y x. - 90)"
    by (simp_all add: env_default_def)
  have g: "getdata_result ?e = Inl FileNotFoundError
     \<and> (FileNotFoundError = FileNotFoundError \<or> (\<exists>m. FileNotFoundError = OSError m))"
    by simp
  have r: "i_am_root ?e = Inr True"
    by (simp add: i_am_root_total env_default_def)
  have n: "(0::int) < 1 \<and> nat 1 < length (lnZ_xy ?e [0..1] (zero_evidence ?e 140 112))"
    by (simp add: z lnZ_table_values)
  note t = C6_baseline_fallback [of ?e FileNotFoundError 1 140 112]
  from g t have a: "baseline ?e =
       ([Call_getdata, Call_make_cube_shh, Call_get_zero_evidence], Inr (zero_evidence ?e))"
    by blast
  from g r n t have b: "outcome (evidence_block ?e 1 (140, 112) True) =
                 Inr (Some (lnZ_xy ?e [0..1] (zero_evidence ?e 140 112)))
               \<and> Log_bayes 1 (1 - 1)
                    (lnZ_xy ?e [0..1] (zero_evidence ?e 140 112) ! nat 1
                      - lnZ_xy ?e [0..1] (zero_evidence ?e 140 112) ! nat (1 - 1))
                   \<in> set (events (evidence_block ?e 1 (140, 112) True))"
    by blast
  from a have a': "baseline ?e =
       ([Call_getdata, Call_make_cube_shh, Call_get_zero_evidence], Inr (\<lambda>y x. - 90))"
    by (simp only: ze)
  from b have b': "outcome (evidence_block ?e 1 (140, 112) True) = Inr (Some [- 90, - 80])
     \<and> Log_bayes 1 0 10 \<in> set (events (evidence_block ?e 1 (140, 112) True))"
    by (simp add: z ze lnZ_table_values)
  from a' b' show ?thesis by simp
qed

subsection \<open>The coordinator\<close>











subsection \<open>Directory creation\<close>

lemma proc_step_inv:
  assumes "proc_step p fs = (p', fs')" and "pc_ok p fs" and "pc_ok q fs"
    and "creations fs = (if dir_present fs then 1 else 0)"
  shows "pc_ok p' fs' \<and> pc_ok q fs' \<and> creations fs' = (if dir_present fs' then 1 else 0)"
proof (cases p)
  case At_exists
  with assms show ?thesis by (auto split: if_splits)
next
  case At_makedirs
  with assms show ?thesis
    by (cases q) (auto simp: os_makedirs_def makedirs_handler_def split: if_splits)
next
  case Passed
  with assms show ?thesis by auto
next
  case (Failed e)
  with assms show ?thesis by auto
qed

lemma sched_step_inv: "race_inv c \<Longrightarrow> race_inv (sched_step b c)"
proof -
  obtain p q fs where c: "c = (p, q, fs)" by (cases c) auto
  assume i: "race_inv c"
  show ?thesis
  proof (cases b)
    case False
    obtain p' fs' where s: "proc_step p fs = (p', fs')" by (cases "proc_step p fs") auto
    with i c proc_step_inv [OF s, of q] False show ?thesis by simp
  next
    case True
    obtain q' fs' where s: "proc_step q fs = (q', fs')" by (cases "proc_step q fs") auto
    with i c proc_step_inv [OF s, of p] True show ?thesis by simp
  qed
qed

lemma run_sched_inv: "race_inv c \<Longrightarrow> race_inv (run_sched sched c)"
  by (induction sched arbitrary: c) (simp_all add: sched_step_inv)

lemma race_inv_start: "race_inv start"
  by (simp add: start_def)

lemma race_inv_terminal:
  assumes "race_inv (p, q, fs)" and "terminal p" and "terminal q"
  shows "p = Passed \<and> q = Passed \<and> dir_present fs \<and> creations fs = 1"
  using assms by (cases p; cases q) auto

lemma proc_step_steps_left: "steps_left (fst (proc_step p fs)) \<le> steps_left p - 1"
  by (cases p) (auto simp: os_makedirs_def split: prod.splits option.splits if_splits)

lemma run_sched_steps_left:
  "run_sched sched (p, q, fs) = (p', q', fs') \<Longrightarrow>
     steps_left p' \<le> steps_left p - length (filter Not sched)
     \<and> steps_left q' \<le> steps_left q - length (filter id sched)"
proof (induction sched arbitrary: p q fs)
  case Nil
  then show ?case by simp
next
  case (Cons b bs)
  show ?case
  proof (cases b)
    case False
    obtain p1 fs1 where s: "proc_step p fs = (p1, fs1)" by (cases "proc_step p fs") auto
    with Cons.prems False have "run_sched bs (p1, q, fs1) = (p', q', fs')" by simp
    from Cons.IH [OF this] proc_step_steps_left [of p fs] s False show ?thesis
      by (simp; arith)
  next
    case True
    obtain q1 fs1 where s: "proc_step q fs = (q1, fs1)" by (cases "proc_step q fs") auto
    with Cons.prems True have "run_sched bs (p, q1, fs1) = (p', q', fs')" by simp
    from Cons.IH [OF this] proc_step_steps_left [of q fs] s True show ?thesis
      by (simp; arith)
  qed
qed

lemma terminal_steps_left: "terminal p \<longleftrightarrow> steps_left p = 0"
  by (cases p) simp_all

lemma run_sched_finishes:
  assumes "2 \<le> length (filter Not sched)" and "2 \<le> length (filter id sched)"
    and "run_sched sched start = (p, q, fs)"
  shows "terminal p \<and> terminal q"
  using run_sched_steps_left [of sched At_exists At_exists _ p q fs] assms
  by (simp add: start_def terminal_steps_left)

lemma makedirs_handler_errno:
  "errno e \<noteq> Some 17 \<Longrightarrow> makedirs_handler (Some e) = Some e"
  by (simp add: makedirs_handler_def)

lemma makedirs_handler_errno_17:
  "isinstance_OSError e \<Longrightarrow> errno e = Some 17 \<Longrightarrow> makedirs_handler (Some e) = None"
  by (simp add: makedirs_handler_def)

text \<open>
  Claim C5. The handler around \<^verbatim>\<open>os.makedirs\<close> swallows an \<^verbatim>\<open>OSError\<close> whose errno
  is 17 and lets every other exception through unchanged, so the directory step of the
  script goes on after an already-exists error and ends with the exception otherwise.
  When two processes run the check and the creation on the same missing path, in any
  interleaving, and both have finished, both have passed, none has raised, and the
  directory has been created exactly once; every interleaving that gives each process
  two moves finishes both.
\<close>

theorem C5_makedirs_race:
  "makedirs_handler None = None
   \<and> (isinstance_OSError e \<and> errno e = Some 17 \<longrightarrow> makedirs_handler (Some e) = None)
   \<and> (errno e \<noteq> Some 17 \<longrightarrow> makedirs_handler (Some e) = Some e)
   \<and> (\<not> path_exists env \<and> makedirs_result env = Some e
        \<and> isinstance_OSError e \<and> errno e = Some 17 \<longrightarrow>
        make_chains_dir env yx = ([Call_makedirs (chains_dir yx)], Inr ()))
   \<and> (\<not> path_exists env \<and> makedirs_result env = Some e \<and> errno e \<noteq> Some 17 \<longrightarrow>
        make_chains_dir env yx = ([Call_makedirs (chains_dir yx)], Inl e))
   \<and> (run_sched sched start = (p, q, fs) \<and> terminal p \<and> terminal q \<longrightarrow>
        p = Passed \<and> q = Passed \<and> dir_present fs \<and> creations fs = 1)
   \<and> (run_sched sched start = (p, q, fs)
        \<and> 2 \<le> length (filter Not sched) \<and> 2 \<le> length (filter id sched) \<longrightarrow>
        terminal p \<and> terminal q)"
proof (intro conjI impI)
  show "makedirs_handler None = None"
    by (simp add: makedirs_handler_def)
next
  assume "isinstance_OSError e \<and> errno e = Some 17"
  then show "makedirs_handler (Some e) = None"
    by (simp add: makedirs_handler_errno_17)
next
  assume "errno e \<noteq> Some 17"
  then show "makedirs_handler (Some e) = Some e"
    by (rule makedirs_handler_errno)
next
  assume "\<not> path_exists env \<and> makedirs_result env = Some e
        \<and> isinstance_OSError e \<and> errno e = Some 17"
  then show "make_chains_dir env yx = ([Call_makedirs (chains_dir yx)], Inr ())"
    by (simp add: make_chains_dir_def makedirs_handler_errno_17)
next
  assume "\<not> path_exists env \<and> makedirs_result env = Some e \<and> errno e \<noteq> Some 17"
  then show "make_chains_dir env yx = ([Call_makedirs (chains_dir yx)], Inl e)"
    by (simp add: make_chains_dir_def makedirs_handler_errno)
next
  assume a: "run_sched sched start = (p, q, fs) \<and> terminal p \<and> terminal q"
  have "race_inv (run_sched sched start)"
    using race_inv_start by (rule run_sched_inv)
  with a have i: "race_inv (p, q, fs)" by simp
  from a have t: "terminal p" "terminal q" by simp_all
  from race_inv_terminal [OF i t]
  show "p = Passed" and "q = Passed" and "dir_present fs" and "creations fs = 1"
    by simp_all
next
  assume a: "run_sched sched start = (p, q, fs)
        \<and> 2 \<le> length (filter Not sched) \<and> 2 \<le> length (filter id sched)"
  then have "terminal p \<and> terminal q"
    using run_sched_finishes [of sched p q fs] by blast
  then show "terminal p" and "terminal q" by simp_all
qed

theorem C5_makedirs_race_witness:
  "isinstance_OSError (OSError (Some 17)) \<and> errno (OSError (Some 17)) = Some 17
   \<and> makedirs_handler (Some (OSError (Some 17))) = None
   \<and> errno (OSError (Some 13)) \<noteq> Some 17
   \<and> makedirs_handler (Some (OSError (Some 13))) = Some (OSError (Some 13))
   \<and> make_chains_dir (env_default\<lparr>makedirs_result := Some (OSError (Some 17))\<rparr>) (140, 112)
        = ([Call_makedirs (ChainsDir 112 140)], Inr ())
   \<and> make_chains_dir (env_default\<lparr>makedirs_result := Some (OSError (Some 13))\<rparr>) (140, 112)
        = ([Call_makedirs (ChainsDir 112 140)], Inl (OSError (Some 13)))
   \<and> run_sched [False, True, False, True] start
        = (Passed, Passed, \<lparr>dir_present = True, creations = 1\<rparr>)
   \<and> terminal Passed
   \<and> 2 \<le> length (filter Not [False, True, False, True])
   \<and> 2 \<le> length (filter id [False, True, False, True])
   \<and> creations \<lparr>dir_present = True, creations = 1\<rparr> = 1"
proof -
  let ?e17 = "env_default\<lparr>makedirs_result := Some (OSError (Some 17))\<rparr>"
  let ?e13 = "env_default\<lparr>makedirs_result := Some (OSError (Some 13))\<rparr>"
  let ?fs = "\<lparr>dir_present = True, creations = 1\<rparr>"
  have h17: "\<not> path_exists ?e17 \<and> makedirs_result ?e17 = Some (OSError (Some 17))
        \<and> isinstance_OSError (OSError (Some 17)) \<and> errno (OSError (Some 17)) = Some 17"
    by (simp add: env_default_def)
  have h13: "\<not> path_exists ?e13 \<and> makedirs_result ?e13 = Some (OSError (Some 13))
        \<and> errno (OSError (Some 13)) \<noteq> Some 17"
    by (simp add: env_default_def)
  have r: "run_sched [False, True, False, True] start = (Passed, Passed, ?fs)"
    by (simp add: start_def os_makedirs_def makedirs_handler_def)
  have l: "2 \<le> length (filter Not [False, True, False, True])
     \<and> 2 \<le> length (filter id [False, True, False, True])"
    by simp
  have tp: "terminal Passed" by simp
  note t17 = C5_makedirs_race [of "OSError (Some 17)" ?e17 "(140, 112)"
      "[False, True, False, True]" Passed Passed ?fs]
  note t13 = C5_makedirs_race [of "OSError (Some 13)" ?e13 "(140, 112)"
      "[False, True, False, True]" Passed Passed ?fs]
  from h17 t17 have a: "makedirs_handler (Some (OSError (Some 17))) = None
     \<and> make_chains_dir ?e17 (140, 112) = ([Call_makedirs (chains_dir (140, 112))], Inr ())"
    by blast
  from h13 t13 have b: "makedirs_handler (Some (OSError (Some 13))) = Some (OSError (Some 13))
     \<and> make_chains_dir ?e13 (140, 112)
        = ([Call_makedirs (chains_dir (140, 112))], Inl (OSError (Some 13)))"
    by blast
  from r tp t17 have c: "creations ?fs = 1" by blast
  from r l t17 have d: "terminal Passed" by blast
  from a b have ab: "makedirs_handler (Some (OSError (Some 17))) = None
     \<and> makedirs_handler (Some (OSError (Some 13))) = Some (OSError (Some 13))
     \<and> make_chains_dir ?e17 (140, 112) = ([Call_makedirs (ChainsDir 112 140)], Inr ())
     \<and> make_chains_dir ?e13 (140, 112)
        = ([Call_makedirs (ChainsDir 112 140)], Inl (OSError (Some 13)))"
    by (simp add: chains_dir_def)
  from h17 h13 ab r l c d show ?thesis by blast
qed

end
